theory Spec2Isabelle
  imports Complex_Main "HOL-Library.AList" "HOL-Library.Log_Nat"
begin

section \<open>The retry primitive (function \<open>retry\<close>, utils/retry.js)\<close>

text \<open>
  \<^verbatim>\<open>retry(fn, maxRetries = 3, delay = 1000)\<close> calls \<open>fn\<close> once per attempt. The
  operation is a black box that may answer differently at each call, so it is modelled by
  the outcome of its \<open>k\<close>-th invocation: \<open>Inl err\<close> when that invocation throws
  \<open>err\<close>, \<open>Inr v\<close> when it returns \<open>v\<close>. The only effects of \<open>retry\<close> besides
  logging are the invocations of \<open>fn\<close> and the calls of \<open>sleep\<close>; they are recorded, in
  order, as a list of events. Logging is left out.
\<close>

datatype retry_event = Invoke nat | Sleep nat

text \<open>
  What \<open>retry\<close> throws: the last error caught, or, when the loop body never ran
  (\<open>maxRetries < 1\<close>), the TypeError raised by reading \<open>lastError.message\<close> of
  \<open>undefined\<close>.
\<close>

datatype 'e retry_failure = Thrown 'e | TypeError_lastError_undefined

text \<open>
  The \<open>for\<close> loop, with the loop variable \<open>attempt\<close>, the variable \<open>lastError\<close>
  (\<open>None\<close> is \<open>undefined\<close>) and the events so far.
\<close>

function retry_loop ::
  "(nat \<Rightarrow> 'e + 'a) \<Rightarrow> nat \<Rightarrow> nat \<Rightarrow> nat \<Rightarrow> 'e option \<Rightarrow> retry_event list
     \<Rightarrow> retry_event list \<times> ('e option + 'a)" where
  "retry_loop fn maxRetries delay attempt lastError evs =
     (if attempt \<le> maxRetries then
        (case fn attempt of
           Inr v \<Rightarrow> (evs @ [Invoke attempt], Inr v)
         | Inl err \<Rightarrow>
             (if attempt < maxRetries
              then retry_loop fn maxRetries delay (attempt + 1) (Some err)
                     (evs @ [Invoke attempt, Sleep (delay * 2 ^ (attempt - 1))])
              else retry_loop fn maxRetries delay (attempt + 1) (Some err)
                     (evs @ [Invoke attempt])))
      else (evs, Inl lastError))"
  by pat_completeness auto
termination
  by (relation "measure (\<lambda>(fn, maxRetries, delay, attempt, lastError, evs). Suc maxRetries - attempt)")
    auto

definition retry ::
  "(nat \<Rightarrow> 'e + 'a) \<Rightarrow> nat \<Rightarrow> nat \<Rightarrow> retry_event list \<times> ('e retry_failure + 'a)" where
  "retry fn maxRetries delay =
     (case retry_loop fn maxRetries delay 1 None [] of
        (evs, Inr v) \<Rightarrow> (evs, Inr v)
      | (evs, Inl None) \<Rightarrow> (evs, Inl TypeError_lastError_undefined)
      | (evs, Inl (Some err)) \<Rightarrow> (evs, Inl (Thrown err)))"

text \<open>The events of \<open>n\<close> failed attempts from attempt \<open>a\<close> on, the last one being attempt \<open>n\<close>.\<close>

definition failed_attempts :: "nat \<Rightarrow> nat \<Rightarrow> nat \<Rightarrow> retry_event list" where
  "failed_attempts delay a n =
     concat (map (\<lambda>k. [Invoke k, Sleep (delay * 2 ^ (k - 1))]) [a..<n]) @ [Invoke n]"


section \<open>JavaScript numbers\<close>

text \<open>
  The percentages and averages of the monitors are JavaScript numbers: IEEE 754 doubles.
  The numbers of this program are never negative. A double is represented by the rational
  it denotes, or is one of the two special values that arise here: \<open>Infinity\<close> and
  \<open>NaN\<close>. Every arithmetic operation returns the double nearest to the exact result,
  the one with the even significand of two equally near.

  \<open>pow2 k\<close> is \<open>2\<close> to the integer power \<open>k\<close>, and \<open>ilog2 q\<close> the integer part of
  the binary logarithm of a positive rational \<open>q\<close>.
\<close>

datatype jsnum = Num rat | PosInf | NaN

definition pow2 :: "int \<Rightarrow> rat" where
  "pow2 k = (if 0 \<le> k then 2 ^ nat k else 1 / 2 ^ nat (- k))"

definition ilog2 :: "rat \<Rightarrow> int" where
  "ilog2 q =
     (if 1 \<le> q then int (floorlog 2 (nat \<lfloor>q\<rfloor>)) - 1
      else - int (floorlog 2 (nat \<lceil>1 / q\<rceil> - 1)))"

text \<open>The integer nearest to \<open>x\<close>, the even one of two equally near.\<close>

definition round_even :: "rat \<Rightarrow> int" where
  "round_even x =
     (if x - of_int \<lfloor>x\<rfloor> < 1 / 2 then \<lfloor>x\<rfloor>
      else if 1 / 2 < x - of_int \<lfloor>x\<rfloor> then \<lfloor>x\<rfloor> + 1
      else if even \<lfloor>x\<rfloor> then \<lfloor>x\<rfloor>
      else \<lfloor>x\<rfloor> + 1)"

text \<open>
  The double nearest to a rational \<open>q \<ge> 0\<close>: a significand of 53 bits times a power of
  two, the exponent not below \<open>-1074\<close> (subnormal numbers), and \<open>Infinity\<close> from
  \<open>2^1024\<close> on.
\<close>

definition to_double :: "rat \<Rightarrow> jsnum" where
  "to_double q =
     (if q = 0 then Num 0
      else let e = max (ilog2 q - 52) (- 1074);
               v = of_int (round_even (q / pow2 e)) * pow2 e
           in if pow2 1024 \<le> v then PosInf else Num v)"

text \<open>An integer as a JavaScript number: itself below \<open>2^53\<close>.\<close>

definition number :: "nat \<Rightarrow> jsnum" where
  "number n = to_double (of_nat n)"

text \<open>Division, addition, and multiplication by a positive constant.\<close>

fun js_divide :: "jsnum \<Rightarrow> jsnum \<Rightarrow> jsnum" where
  "js_divide NaN b = NaN"
| "js_divide a NaN = NaN"
| "js_divide PosInf PosInf = NaN"
| "js_divide PosInf (Num y) = PosInf"
| "js_divide (Num x) PosInf = Num 0"
| "js_divide (Num x) (Num y) =
     (if y = 0 then (if x = 0 then NaN else PosInf) else to_double (x / y))"

fun js_plus :: "jsnum \<Rightarrow> jsnum \<Rightarrow> jsnum" where
  "js_plus NaN b = NaN"
| "js_plus a NaN = NaN"
| "js_plus PosInf b = PosInf"
| "js_plus a PosInf = PosInf"
| "js_plus (Num x) (Num y) = to_double (x + y)"

fun js_times :: "jsnum \<Rightarrow> rat \<Rightarrow> jsnum" where
  "js_times (Num x) c = to_double (x * c)"
| "js_times PosInf c = PosInf"
| "js_times NaN c = NaN"

text \<open>The quotient \<open>a / b\<close> of two integers held in numbers.\<close>

definition js_div :: "nat \<Rightarrow> nat \<Rightarrow> jsnum" where
  "js_div a b = js_divide (number a) (number b)"

text \<open>\<open>Math.max\<close> of two arguments: \<open>NaN\<close> if one of them is.\<close>

fun js_max :: "jsnum \<Rightarrow> jsnum \<Rightarrow> jsnum" where
  "js_max NaN b = NaN"
| "js_max a NaN = NaN"
| "js_max PosInf b = PosInf"
| "js_max a PosInf = PosInf"
| "js_max (Num x) (Num y) = Num (max x y)"

definition Math_max :: "jsnum \<Rightarrow> jsnum \<Rightarrow> jsnum \<Rightarrow> jsnum \<Rightarrow> jsnum" where
  "Math_max a b c d = js_max (js_max (js_max a b) c) d"

text \<open>The comparison \<open>a >= t\<close> with a finite number \<open>t\<close>: false for \<open>NaN\<close>.\<close>

fun js_ge :: "jsnum \<Rightarrow> rat \<Rightarrow> bool" where
  "js_ge (Num x) t = (t \<le> x)"
| "js_ge PosInf t = True"
| "js_ge NaN t = False"

text \<open>
  \<open>x.toFixed(1)\<close> is a string: the decimal with one fractional digit nearest to the
  value of the double \<open>x\<close>, the larger one of two equally near; the number's ordinary
  rendering from \<open>10^21\<close> on; \<open>Infinity\<close> and \<open>NaN\<close> for the special values. The
  string is represented by the number it denotes (from \<open>10^21\<close> on, by \<open>x\<close>).
  \<open>parseFloat\<close> of such a string is the double nearest to the number it denotes.
\<close>

fun toFixed1 :: "jsnum \<Rightarrow> jsnum" where
  "toFixed1 (Num x) =
     Num (if x < 10 ^ 21 then of_int \<lfloor>x * 10 + 1 / 2\<rfloor> / 10 else x)"
| "toFixed1 PosInf = PosInf"
| "toFixed1 NaN = NaN"

fun parseFloat :: "jsnum \<Rightarrow> jsnum" where
  "parseFloat (Num q) = to_double q"
| "parseFloat PosInf = PosInf"
| "parseFloat NaN = NaN"

section \<open>JavaScript objects used as dictionaries\<close>

text \<open>
  The analyses count in plain objects created by \<open>{}\<close>. Such an object inherits from
  \<open>Object.prototype\<close>: reading \<open>obj[k]\<close> for a key that is not an own property gives
  the inherited value when \<open>k\<close> names a property of \<open>Object.prototype\<close>, a function for
  the names below and the prototype object itself for \<open>__proto__\<close>; both are truthy.
  The model describes a call made while \<open>Object.prototype\<close> has its initial properties.

  The own properties of an object are an association list in insertion order
  (\<open>AList.update\<close> overwrites a key in place and appends a new key at the end).
\<close>

definition Object_prototype_functions :: "string list" where
  "Object_prototype_functions =
     [''constructor'', ''__defineGetter__'', ''__defineSetter__'', ''hasOwnProperty'',
      ''__lookupGetter__'', ''__lookupSetter__'', ''isPrototypeOf'', ''propertyIsEnumerable'',
      ''toString'', ''valueOf'', ''toLocaleString'']"

definition inherited :: "string \<Rightarrow> bool" where
  "inherited k = (k = ''__proto__'' \<or> k \<in> set Object_prototype_functions)"

text \<open>
  A value of a histogram: a count, or, for a key that names an inherited function, the
  string that \<open>+ 1\<close> makes of the function (its source text followed by \<open>1\<close>) and of
  that string again; \<open>Text n\<close> is the source text followed by \<open>n\<close> digits \<open>1\<close>.
\<close>

datatype histogram_value = Count nat | Text nat

text \<open>
  \<open>obj[k] = (obj[k] || 0) + 1\<close>. For \<open>k = __proto__\<close> the value read is the prototype
  object, and the assignment of the resulting string goes to the inherited setter, which
  ignores a value that is neither an object nor \<open>null\<close>: the object stays as it is.
\<close>

definition increment ::
  "string \<Rightarrow> (string \<times> histogram_value) list \<Rightarrow> (string \<times> histogram_value) list" where
  "increment k obj =
     (if k = ''__proto__'' then obj
      else AList.update k
             (case map_of obj k of
                Some (Count c) \<Rightarrow> Count (c + 1)
              | Some (Text n) \<Rightarrow> Text (n + 1)
              | None \<Rightarrow> if k \<in> set Object_prototype_functions then Text 1 else Count 1) obj)"

text \<open>
  \<open>Object.keys\<close> lists the own keys that are array indices (the decimal numerals of the
  integers up to \<open>2^32 - 2\<close>) first, in ascending order, and then the other keys in
  insertion order.
\<close>

definition digit_value :: "char \<Rightarrow> nat" where
  "digit_value c = length (takeWhile (\<lambda>d. d \<noteq> c) ''0123456789'')"

definition index_value :: "string \<Rightarrow> nat" where
  "index_value s = foldl (\<lambda>n c. 10 * n + digit_value c) 0 s"

definition is_array_index :: "string \<Rightarrow> bool" where
  "is_array_index s =
     (s \<noteq> [] \<and> list_all (\<lambda>c. c \<in> set ''0123456789'') s
      \<and> (s = ''0'' \<or> hd s \<noteq> CHR ''0'') \<and> index_value s \<le> 4294967294)"

definition Object_keys :: "(string \<times> 'v) list \<Rightarrow> string list" where
  "Object_keys obj =
     sort_key index_value (filter is_array_index (map fst obj))
     @ filter (\<lambda>k. \<not> is_array_index k) (map fst obj)"

section \<open>Debug log monitor: error analysis (class \<open>DebugLogMonitor\<close>)\<close>

record error_record =
  err_timestamp :: string
  logId :: string
  errorType :: string
  errorMessage :: string
  err_className :: string
  err_methodName :: string
  lineNumber :: "nat option"

text \<open>
  \<open>Object.keys(errorTypes).sort((a, b) => errorTypes[b] - errorTypes[a])[0] || 'None'\<close>.
  The sort is stable and descending in the count; an empty first key is falsy. When a
  value is a string, the difference is \<open>NaN\<close>, which \<open>sort\<close> takes as 0: the
  comparison is then consistent only if all the counts are equal, and otherwise the order
  of the result is left to the implementation.
\<close>

datatype most_common = Most string | Implementation_defined

definition counts :: "(string \<times> histogram_value) list \<Rightarrow> nat list" where
  "counts obj = concat (map (\<lambda>(k, v). case v of Count c \<Rightarrow> [c] | Text n \<Rightarrow> []) obj)"

definition has_text :: "(string \<times> histogram_value) list \<Rightarrow> bool" where
  "has_text obj = list_ex (\<lambda>(k, v). case v of Count c \<Rightarrow> False | Text n \<Rightarrow> True) obj"

definition rank :: "(string \<times> histogram_value) list \<Rightarrow> string \<Rightarrow> int" where
  "rank obj k =
     (if has_text obj then 0
      else case map_of obj k of Some (Count c) \<Rightarrow> - int c | _ \<Rightarrow> 0)"

definition most_common :: "(string \<times> histogram_value) list \<Rightarrow> most_common" where
  "most_common obj =
     (if has_text obj \<and> length (remdups (counts obj)) > 1 then Implementation_defined
      else Most (case sort_key (rank obj) (Object_keys obj) of
                   [] \<Rightarrow> ''None''
                 | k # ks \<Rightarrow> if k = [] then ''None'' else k))"

record error_summary =
  totalErrors :: nat
  uniqueErrorTypes :: nat
  errorTypes :: "(string \<times> histogram_value) list"
  classErrors :: "(string \<times> histogram_value) list"
  mostCommonError :: most_common

record debug_log_results =
  errors :: "error_record list"
  summary :: error_summary

text \<open>The body of the loop of \<open>analyzeErrors\<close>, on the pair \<open>(errorTypes, classErrors)\<close>.\<close>

definition analyzeErrors_step ::
  "(string \<times> histogram_value) list \<times> (string \<times> histogram_value) list \<Rightarrow> error_record
     \<Rightarrow> (string \<times> histogram_value) list \<times> (string \<times> histogram_value) list" where
  "analyzeErrors_step acc error =
     (increment (errorType error) (fst acc),
      if err_className error \<noteq> [] then increment (err_className error) (snd acc) else snd acc)"

definition analyzeErrors :: "error_record list \<Rightarrow> error_summary" where
  "analyzeErrors errs =
     (let acc = foldl analyzeErrors_step ([], []) errs in
      \<lparr>totalErrors = length errs,
       uniqueErrorTypes = length (Object_keys (fst acc)),
       errorTypes = fst acc,
       classErrors = snd acc,
       mostCommonError = most_common (fst acc)\<rparr>)"

section \<open>Governor limit monitor: limit analysis (class \<open>GovernorLimitMonitor\<close>)\<close>

record limit_record =
  lim_timestamp :: string
  lim_className :: string
  lim_methodName :: string
  soqlQueriesUsed :: nat
  soqlQueriesLimit :: nat
  dmlStatementsUsed :: nat
  dmlStatementsLimit :: nat
  cpuTimeUsed :: nat
  cpuTimeLimit :: nat
  heapSizeUsed :: nat
  heapSizeLimit :: nat

record percentages =
  soql :: jsnum
  dml :: jsnum
  cpu :: jsnum
  heap :: jsnum

text \<open>An entry of \<open>highUsage\<close>: the record spread, with the two added fields.\<close>

record high_usage =
  usage_data :: limit_record
  usage_percentages :: percentages
  maxPercent :: jsnum

text \<open>
  A value of \<open>byClass\<close> while the loop runs (the sums are held in the fields named
  \<open>avg...\<close>) and after the averages have replaced the sums.
\<close>

record class_sums =
  sum_count :: nat
  sumSoql :: jsnum
  sumDml :: jsnum
  sumCpu :: jsnum

record class_usage =
  count :: nat
  avgSoql :: jsnum
  avgDml :: jsnum
  avgCpu :: jsnum

record limit_analysis =
  highUsageCount :: nat
  highUsage :: "high_usage list"
  byClass :: "(string \<times> class_usage) list"

record governor_limit_results =
  limitData :: "limit_record list"
  analysis :: limit_analysis

definition soqlPercent :: "limit_record \<Rightarrow> jsnum" where
  "soqlPercent d = js_times (js_div (soqlQueriesUsed d) (soqlQueriesLimit d)) 100"

definition dmlPercent :: "limit_record \<Rightarrow> jsnum" where
  "dmlPercent d = js_times (js_div (dmlStatementsUsed d) (dmlStatementsLimit d)) 100"

definition cpuPercent :: "limit_record \<Rightarrow> jsnum" where
  "cpuPercent d = js_times (js_div (cpuTimeUsed d) (cpuTimeLimit d)) 100"

definition heapPercent :: "limit_record \<Rightarrow> jsnum" where
  "heapPercent d = js_times (js_div (heapSizeUsed d) (heapSizeLimit d)) 100"

definition maxPercentUsed :: "limit_record \<Rightarrow> jsnum" where
  "maxPercentUsed d = Math_max (soqlPercent d) (dmlPercent d) (cpuPercent d) (heapPercent d)"

definition high_usage_entry :: "limit_record \<Rightarrow> high_usage" where
  "high_usage_entry d =
     \<lparr>usage_data = d,
      usage_percentages =
        \<lparr>soql = toFixed1 (soqlPercent d), dml = toFixed1 (dmlPercent d),
         cpu = toFixed1 (cpuPercent d), heap = toFixed1 (heapPercent d)\<rparr>,
      maxPercent = toFixed1 (maxPercentUsed d)\<rparr>"

text \<open>
  The three \<open>+=\<close> and the \<open>count++\<close> on the entry of a class. The count is at most
  the length of an array and so exact.
\<close>

definition add_usage :: "limit_record \<Rightarrow> class_sums \<Rightarrow> class_sums" where
  "add_usage d cur =
     \<lparr>sum_count = sum_count cur + 1,
      sumSoql = js_plus (sumSoql cur) (number (soqlQueriesUsed d)),
      sumDml = js_plus (sumDml cur) (number (dmlStatementsUsed d)),
      sumCpu = js_plus (sumCpu cur) (number (cpuTimeUsed d))\<rparr>"

text \<open>
  The aggregation by class. For a class whose name names a property of
  \<open>Object.prototype\<close>, \<open>byClass[data.className]\<close> is the inherited value, which is
  truthy: no entry is created, and the count and the sums are written onto the inherited
  function or, for \<open>__proto__\<close>, onto \<open>Object.prototype\<close> itself.
\<close>

definition aggregate :: "limit_record \<Rightarrow> (string \<times> class_sums) list \<Rightarrow> (string \<times> class_sums) list" where
  "aggregate d obj =
     (if inherited (lim_className d) then obj
      else AList.update (lim_className d)
             (add_usage d
                (case map_of obj (lim_className d) of
                   None \<Rightarrow> \<lparr>sum_count = 0, sumSoql = Num 0, sumDml = Num 0, sumCpu = Num 0\<rparr>
                 | Some c \<Rightarrow> c)) obj)"

text \<open>
  The body of the first loop of \<open>analyzeLimits\<close>, on the pair \<open>(highUsage, byClass)\<close>.
  The only threshold it reads is \<open>thresholds.soqlQueries\<close>.
\<close>

definition analyzeLimits_step ::
  "rat \<Rightarrow> high_usage list \<times> (string \<times> class_sums) list \<Rightarrow> limit_record
     \<Rightarrow> high_usage list \<times> (string \<times> class_sums) list" where
  "analyzeLimits_step soqlQueries acc d =
     (if js_ge (maxPercentUsed d) soqlQueries then fst acc @ [high_usage_entry d] else fst acc,
      aggregate d (snd acc))"

text \<open>The body of the second loop: the sums become averages with one decimal.\<close>

definition averages :: "class_sums \<Rightarrow> class_usage" where
  "averages c =
     \<lparr>count = sum_count c,
      avgSoql = toFixed1 (js_divide (sumSoql c) (number (sum_count c))),
      avgDml = toFixed1 (js_divide (sumDml c) (number (sum_count c))),
      avgCpu = toFixed1 (js_divide (sumCpu c) (number (sum_count c)))\<rparr>"

text \<open>
  A class named \<open>__proto__\<close> has made \<open>count\<close>, \<open>avgSoql\<close>, \<open>avgDml\<close> and
  \<open>avgCpu\<close> enumerable properties of \<open>Object.prototype\<close>, with the value \<open>NaN\<close>. The
  second loop is a \<open>for ... in\<close>: after the own keys of \<open>byClass\<close> it visits those of
  the four names that no own key shadows, and the assignment \<open>data.avgSoql = ...\<close> to
  the number \<open>NaN\<close> throws a TypeError, the code of a class being strict.
\<close>

definition cannot_create_property :: string where
  "cannot_create_property = ''Cannot create property 'avgSoql' on number 'NaN'' @ [CHR 0x27]"

definition prototype_polluted :: "limit_record list \<Rightarrow> (string \<times> class_sums) list \<Rightarrow> bool" where
  "prototype_polluted lds obj =
     (''__proto__'' \<in> set (map lim_className lds)
      \<and> list_ex (\<lambda>k. k \<notin> set (map fst obj)) [''count'', ''avgSoql'', ''avgDml'', ''avgCpu''])"

definition analyzeLimits :: "rat \<Rightarrow> limit_record list \<Rightarrow> string + limit_analysis" where
  "analyzeLimits soqlQueries lds =
     (let acc = foldl (analyzeLimits_step soqlQueries) ([], []) lds in
      if prototype_polluted lds (snd acc) then Inl cannot_create_property
      else Inr \<lparr>highUsageCount = length (fst acc),
                highUsage = fst acc,
                byClass = map (\<lambda>(k, c). (k, averages c)) (snd acc)\<rparr>)"

section \<open>Code quality monitor (class \<open>CodeQualityMonitor\<close>)\<close>

text \<open>
  A symbol table may be absent (\<open>null\<close> or \<open>undefined\<close>), and so may its \<open>methods\<close>.
  \<open>Math.random()\<close> is modelled by the sequence of the numbers it returns:
  \<open>rnd i\<close> is the value of the call made for the method at index \<open>i\<close>.
\<close>

record 'm symbol_table =
  methods :: "'m list option"

definition calculateComplexity_step :: "(nat \<Rightarrow> rat) \<Rightarrow> int \<times> nat \<Rightarrow> 'm \<Rightarrow> int \<times> nat" where
  "calculateComplexity_step rnd acc method = (fst acc + \<lfloor>rnd (snd acc) * 20\<rfloor>, snd acc + 1)"

definition calculateComplexity :: "(nat \<Rightarrow> rat) \<Rightarrow> 'm symbol_table option \<Rightarrow> int" where
  "calculateComplexity rnd symbolTable =
     (case symbolTable of
        None \<Rightarrow> 0
      | Some st \<Rightarrow>
          (case methods st of
             None \<Rightarrow> 0
           | Some ms \<Rightarrow>
               (let acc = foldl (calculateComplexity_step rnd) (0, 0) ms;
                    totalComplexity = fst acc; methodCount = snd acc
                in if methodCount > 0 then \<lceil>of_int totalComplexity / (of_nat methodCount :: rat)\<rceil>
                   else 0)))"

record class_info =
  cls_name :: string
  cls_length :: nat
  cls_complexity :: int
  cls_apiVersion :: rat
  cls_testCoverage :: "rat option"

text \<open>The three issue texts, each a template with one number.\<close>

datatype issue_text = High_complexity int | Class_too_long nat | Low_test_coverage rat

record quality_metrics =
  m_complexity :: int
  m_length :: nat
  m_coverage :: "rat option"

record class_issues =
  iss_className :: string
  issues :: "issue_text list"
  metrics :: quality_metrics

record code_quality_results =
  classes :: "class_info list"
  cq_issues :: "class_issues list"

record quality_thresholds =
  cyclomaticComplexity :: rat
  classLength :: rat
  minTestCoverage :: rat

definition classIssues :: "quality_thresholds \<Rightarrow> class_info \<Rightarrow> issue_text list" where
  "classIssues th cls =
     (if of_int (cls_complexity cls) > cyclomaticComplexity th
      then [High_complexity (cls_complexity cls)] else [])
     @ (if of_nat (cls_length cls) > classLength th then [Class_too_long (cls_length cls)] else [])
     @ (case cls_testCoverage cls of
          None \<Rightarrow> []
        | Some c \<Rightarrow> if c < minTestCoverage th then [Low_test_coverage c] else [])"

definition identifyIssues :: "quality_thresholds \<Rightarrow> class_info list \<Rightarrow> class_issues list" where
  "identifyIssues th cs =
     concat (map (\<lambda>cls.
       if length (classIssues th cls) > 0
       then [\<lparr>iss_className = cls_name cls, issues = classIssues th cls,
              metrics = \<lparr>m_complexity = cls_complexity cls, m_length = cls_length cls,
                         m_coverage = cls_testCoverage cls\<rparr>\<rparr>]
       else []) cs)"


section \<open>Configuration (config.json)\<close>

text \<open>
  The options the code reads, with the two governor-limit thresholds of the README's
  \<open>config.json\<close> that no code reads. \<open>debugLogHours\<close> is \<open>None\<close> when the option is
  missing or not a number: the date computed from it is then invalid.
\<close>

record thresholds =
  errorRate_absoluteCount :: rat
  governorLimits_soqlQueries :: rat
  governorLimits_dmlStatements :: rat
  governorLimits_cpuTime :: rat
  thresholds_codeQuality :: quality_thresholds

record config =
  enabled_debugLogs :: bool
  enabled_governorLimits :: bool
  enabled_codeQuality :: bool
  debugLogHours :: "rat option"
  thresholds :: thresholds

section \<open>Anomalies and monitoring results\<close>

datatype anomaly_type =
  HIGH_ERROR_RATE | MULTIPLE_ERROR_TYPES | HIGH_GOVERNOR_LIMIT_USAGE | CODE_QUALITY_ISSUE

datatype severity = LOW | MEDIUM | HIGH | CRITICAL

text \<open>
  The description of an anomaly is one of four template strings; it is represented by the
  template and the values put into it. The details are one of four object shapes.
\<close>

datatype description =
  Errors_detected nat
  | Different_error_types nat
  | Approaching_governor_limits string jsnum
  | Has_quality_issues string nat

datatype details =
  Error_rate_details nat rat "(string \<times> histogram_value) list"
  | Error_types_details "(string \<times> histogram_value) list"
  | Limit_details string string percentages jsnum
  | Quality_details string "issue_text list" quality_metrics

record anomaly =
  anomaly_type :: anomaly_type
  severity :: severity
  description :: description
  details :: details

record monitoring_results =
  debugLogs :: "debug_log_results option"
  governorLimits :: "governor_limit_results option"
  codeQuality :: "code_quality_results option"

section \<open>The store (class \<open>MonitoringDatabase\<close>)\<close>

datatype run_status = Running | Completed | Failed

record run_row =
  run_id :: nat
  status :: run_status
  duration_ms :: "int option"

text \<open>
  The tables the run writes, each row of the three data tables with its \<open>run_id\<close>, and
  the largest \<open>AUTOINCREMENT\<close> key that \<open>monitoring_runs\<close> has used so far (0 when
  none): the next key is one more.
\<close>

record database =
  monitoring_runs :: "run_row list"
  debug_log_errors :: "(nat \<times> error_record) list"
  governor_limits :: "(nat \<times> limit_record) list"
  anomalies :: "(nat \<times> anomaly) list"
  last_run_id :: nat

definition startRun :: "database \<Rightarrow> database \<times> nat" where
  "startRun db =
     (db\<lparr>monitoring_runs := monitoring_runs db
            @ [\<lparr>run_id = last_run_id db + 1, status = Running, duration_ms = None\<rparr>],
         last_run_id := last_run_id db + 1\<rparr>,
      last_run_id db + 1)"

definition endRun :: "nat \<Rightarrow> run_status \<Rightarrow> int \<Rightarrow> database \<Rightarrow> database" where
  "endRun runId st durationMs db =
     db\<lparr>monitoring_runs :=
          map (\<lambda>r. if run_id r = runId then r\<lparr>status := st, duration_ms := Some durationMs\<rparr> else r)
            (monitoring_runs db)\<rparr>"

definition insertDebugLogErrors :: "nat \<Rightarrow> error_record list \<Rightarrow> database \<Rightarrow> database" where
  "insertDebugLogErrors runId errs db =
     db\<lparr>debug_log_errors := debug_log_errors db @ map (Pair runId) errs\<rparr>"

definition insertGovernorLimits :: "nat \<Rightarrow> limit_record list \<Rightarrow> database \<Rightarrow> database" where
  "insertGovernorLimits runId limits db =
     db\<lparr>governor_limits := governor_limits db @ map (Pair runId) limits\<rparr>"

definition insertAnomalies :: "nat \<Rightarrow> anomaly list \<Rightarrow> database \<Rightarrow> database" where
  "insertAnomalies runId as db = db\<lparr>anomalies := anomalies db @ map (Pair runId) as\<rparr>"

section \<open>Anomaly detector (class \<open>AnomalyDetector\<close>)\<close>

text \<open>
  The detector object holds the store and the configuration; \<open>detect\<close> is its method.
\<close>

record anomaly_detector =
  det_db :: database
  det_config :: config

definition detectErrorAnomalies :: "config \<Rightarrow> debug_log_results \<Rightarrow> anomaly list" where
  "detectErrorAnomalies cfg debugLogResults =
     (if of_nat (length (errors debugLogResults)) \<ge> errorRate_absoluteCount (thresholds cfg)
      then [\<lparr>anomaly_type = HIGH_ERROR_RATE, severity = HIGH,
             description = Errors_detected (length (errors debugLogResults)),
             details = Error_rate_details (length (errors debugLogResults))
                         (errorRate_absoluteCount (thresholds cfg))
                         (errorTypes (summary debugLogResults))\<rparr>]
      else [])
     @ (if uniqueErrorTypes (summary debugLogResults) > 5
        then [\<lparr>anomaly_type = MULTIPLE_ERROR_TYPES, severity = MEDIUM,
               description = Different_error_types (uniqueErrorTypes (summary debugLogResults)),
               details = Error_types_details (errorTypes (summary debugLogResults))\<rparr>]
        else [])"

text \<open>The severity of a usage: \<open>parseFloat(usage.maxPercent)\<close> is compared with 90 and 80.\<close>

definition usage_severity :: "high_usage \<Rightarrow> severity" where
  "usage_severity usage =
     (if js_ge (parseFloat (maxPercent usage)) 90 then CRITICAL
      else if js_ge (parseFloat (maxPercent usage)) 80 then HIGH
      else MEDIUM)"

definition usage_anomaly :: "high_usage \<Rightarrow> anomaly" where
  "usage_anomaly usage =
     \<lparr>anomaly_type = HIGH_GOVERNOR_LIMIT_USAGE,
      severity = usage_severity usage,
      description = Approaching_governor_limits (lim_className (usage_data usage)) (maxPercent usage),
      details = Limit_details (lim_className (usage_data usage)) (lim_methodName (usage_data usage))
                  (usage_percentages usage) (maxPercent usage)\<rparr>"

definition detectLimitAnomalies :: "governor_limit_results \<Rightarrow> anomaly list" where
  "detectLimitAnomalies limitResults =
     (if highUsageCount (analysis limitResults) > 0
      then map usage_anomaly (highUsage (analysis limitResults))
      else [])"

definition quality_anomaly :: "class_issues \<Rightarrow> anomaly" where
  "quality_anomaly issue =
     \<lparr>anomaly_type = CODE_QUALITY_ISSUE,
      severity = (if length (issues issue) \<ge> 3 then MEDIUM else LOW),
      description = Has_quality_issues (iss_className issue) (length (issues issue)),
      details = Quality_details (iss_className issue) (issues issue) (metrics issue)\<rparr>"

definition detectQualityAnomalies :: "code_quality_results \<Rightarrow> anomaly list" where
  "detectQualityAnomalies qualityResults = map quality_anomaly (cq_issues qualityResults)"

definition detect :: "anomaly_detector \<Rightarrow> monitoring_results \<Rightarrow> anomaly list" where
  "detect this monitoringResults =
     (case debugLogs monitoringResults of
        None \<Rightarrow> []
      | Some r \<Rightarrow> detectErrorAnomalies (det_config this) r)
     @ (case governorLimits monitoringResults of
          None \<Rightarrow> []
        | Some r \<Rightarrow> detectLimitAnomalies r)
     @ (case codeQuality monitoringResults of
          None \<Rightarrow> []
        | Some r \<Rightarrow> detectQualityAnomalies r)"


section \<open>Authentication (class \<open>SalesforceAuth\<close>)\<close>

datatype connection = Connection string

record salesforce_auth =
  conn :: "connection option"

definition getConnection :: "salesforce_auth \<Rightarrow> string + connection" where
  "getConnection this =
     (case conn this of
        None \<Rightarrow> Inl ''Not authenticated. Call authenticate() first.''
      | Some c \<Rightarrow> Inr c)"

section \<open>The monitors' \<open>monitor\<close> methods\<close>

text \<open>
  What a run meets outside the program is collected in an environment:
  \<^item> the three readings of \<open>Date.now()\<close>: at the start of \<open>run\<close>, on the success path
    before \<open>endRun\<close>, and in the \<open>catch\<close> block;
  \<^item> for each operation of the store, the message of the error it throws, if it throws
    (a failed operation leaves the store as it was: every bulk insert is a transaction);
  \<^item> for each monitor, the outcome of the \<open>try\<close> block of its query method: the message of
    the error thrown in it, or the records it builds (the random usage numbers of the
    governor limit monitor included);
  \<^item> for each monitor, the message of an exception raised in the body of \<open>monitor\<close> that
    no inner \<open>catch\<close> absorbs, if there is one (for instance a TypeError raised by the
    analysis when the configuration lacks its thresholds object).
  An error is represented by its message.
\<close>

datatype store_op = StartRun | EndRun | InsertDebugLogErrors | InsertGovernorLimits | InsertAnomalies

datatype monitor_id = DebugLogMonitor | GovernorLimitMonitor | CodeQualityMonitor

text \<open>A row of the ApexClass query, with the outcome of its symbol table query.\<close>

record apex_class_row =
  row_Name :: string
  row_LengthWithoutComments :: "nat option"
  row_ApiVersion :: rat
  row_SymbolTable :: "unit symbol_table option"
  row_random :: "nat \<Rightarrow> rat"

record environment =
  now_start :: int
  now_done :: int
  now_caught :: int
  store_fault :: "store_op \<Rightarrow> string option"
  query_errors :: "string + error_record list"
  query_limits :: "string + limit_record list"
  query_classes :: "string + apex_class_row list"
  internal_fault :: "monitor_id \<Rightarrow> string option"

text \<open>The query-level \<open>catch\<close>: the error is logged and the method returns \<open>[]\<close>.\<close>

definition absorb :: "string + 'a list \<Rightarrow> 'a list" where
  "absorb outcome = (case outcome of Inl e \<Rightarrow> [] | Inr xs \<Rightarrow> xs)"

text \<open>
  \<open>queryDebugLogs\<close> computes \<open>sinceDate.toISOString()\<close> before its \<open>try\<close>: with an
  invalid date this throws a RangeError that the method does not catch.
\<close>

definition queryDebugLogs :: "config \<Rightarrow> environment \<Rightarrow> string + error_record list" where
  "queryDebugLogs cfg env =
     (case debugLogHours cfg of
        None \<Rightarrow> Inl ''Invalid time value''
      | Some h \<Rightarrow> Inr (absorb (query_errors env)))"

text \<open>\<open>extractLimitData\<close> computes the same date inside its \<open>try\<close>.\<close>

definition extractLimitData :: "config \<Rightarrow> environment \<Rightarrow> limit_record list" where
  "extractLimitData cfg env =
     (case debugLogHours cfg of
        None \<Rightarrow> []
      | Some h \<Rightarrow> absorb (query_limits env))"

definition analyzeApexClasses :: "environment \<Rightarrow> class_info list" where
  "analyzeApexClasses env =
     map (\<lambda>cls.
       \<lparr>cls_name = row_Name cls,
        cls_length = (case row_LengthWithoutComments cls of None \<Rightarrow> 0 | Some n \<Rightarrow> n),
        cls_complexity = calculateComplexity (row_random cls) (row_SymbolTable cls),
        cls_apiVersion = row_ApiVersion cls,
        cls_testCoverage = None\<rparr>) (absorb (query_classes env))"

text \<open>
  Each \<open>monitor\<close> method wraps its body in \<open>try { ... } catch (error) { logger.error(...);
  throw error; }\<close>: an error of the body is the error of the method.
\<close>

definition DebugLogMonitor_monitor :: "config \<Rightarrow> environment \<Rightarrow> string + debug_log_results" where
  "DebugLogMonitor_monitor cfg env =
     (case queryDebugLogs cfg env of
        Inl e \<Rightarrow> Inl e
      | Inr errs \<Rightarrow>
          (case internal_fault env DebugLogMonitor of
             Some e \<Rightarrow> Inl e
           | None \<Rightarrow> Inr \<lparr>errors = errs, summary = analyzeErrors errs\<rparr>))"

definition GovernorLimitMonitor_monitor :: "config \<Rightarrow> environment \<Rightarrow> string + governor_limit_results" where
  "GovernorLimitMonitor_monitor cfg env =
     (case internal_fault env GovernorLimitMonitor of
        Some e \<Rightarrow> Inl e
      | None \<Rightarrow>
          (case analyzeLimits (governorLimits_soqlQueries (thresholds cfg)) (extractLimitData cfg env) of
             Inl e \<Rightarrow> Inl e
           | Inr a \<Rightarrow> Inr \<lparr>limitData = extractLimitData cfg env, analysis = a\<rparr>))"

definition CodeQualityMonitor_monitor :: "config \<Rightarrow> environment \<Rightarrow> string + code_quality_results" where
  "CodeQualityMonitor_monitor cfg env =
     (case internal_fault env CodeQualityMonitor of
        Some e \<Rightarrow> Inl e
      | None \<Rightarrow>
          Inr \<lparr>classes = analyzeApexClasses env,
               cq_issues = identifyIssues (thresholds_codeQuality (thresholds cfg)) (analyzeApexClasses env)\<rparr>)"

section \<open>The orchestrator (class \<open>MonitoringOrchestrator\<close>)\<close>

text \<open>
  The state a run changes: the store, and, to observe them, the monitors invoked and the
  calls of the notifier. A step of the run takes the state and returns the new state with
  either the message of the error it throws or its value.
\<close>

record world =
  store :: database
  invoked :: "monitor_id list"
  notified :: "(anomaly list \<times> monitoring_results) list"

type_synonym 'a step = "world \<Rightarrow> world \<times> (string + 'a)"

definition bind :: "'a step \<Rightarrow> ('a \<Rightarrow> 'b step) \<Rightarrow> 'b step" where
  "bind m f w = (case m w of (w', Inl e) \<Rightarrow> (w', Inl e) | (w', Inr x) \<Rightarrow> f x w')"

definition store_call :: "environment \<Rightarrow> store_op \<Rightarrow> (database \<Rightarrow> database) \<Rightarrow> unit step" where
  "store_call env operation f w =
     (case store_fault env operation of
        Some e \<Rightarrow> (w, Inl e)
      | None \<Rightarrow> (w\<lparr>store := f (store w)\<rparr>, Inr ()))"

definition startRun_step :: "environment \<Rightarrow> nat step" where
  "startRun_step env w =
     (case store_fault env StartRun of
        Some e \<Rightarrow> (w, Inl e)
      | None \<Rightarrow> (w\<lparr>store := fst (startRun (store w))\<rparr>, Inr (snd (startRun (store w)))))"

definition invoke :: "monitor_id \<Rightarrow> string + 'a \<Rightarrow> 'a step" where
  "invoke m outcome w = (w\<lparr>invoked := invoked w @ [m]\<rparr>, outcome)"

definition debugLogs_step ::
  "config \<Rightarrow> environment \<Rightarrow> nat \<Rightarrow> monitoring_results \<Rightarrow> monitoring_results step" where
  "debugLogs_step cfg env runId results =
     (if enabled_debugLogs cfg then
        bind (invoke DebugLogMonitor (DebugLogMonitor_monitor cfg env)) (\<lambda>r.
        bind (if length (errors r) > 0
              then store_call env InsertDebugLogErrors (insertDebugLogErrors runId (errors r))
              else (\<lambda>w. (w, Inr ()))) (\<lambda>u.
        (\<lambda>w. (w, Inr (results\<lparr>debugLogs := Some r\<rparr>)))))
      else (\<lambda>w. (w, Inr results)))"

definition governorLimits_step ::
  "config \<Rightarrow> environment \<Rightarrow> nat \<Rightarrow> monitoring_results \<Rightarrow> monitoring_results step" where
  "governorLimits_step cfg env runId results =
     (if enabled_governorLimits cfg then
        bind (invoke GovernorLimitMonitor (GovernorLimitMonitor_monitor cfg env)) (\<lambda>r.
        bind (if length (limitData r) > 0
              then store_call env InsertGovernorLimits (insertGovernorLimits runId (limitData r))
              else (\<lambda>w. (w, Inr ()))) (\<lambda>u.
        (\<lambda>w. (w, Inr (results\<lparr>governorLimits := Some r\<rparr>)))))
      else (\<lambda>w. (w, Inr results)))"

definition codeQuality_step ::
  "config \<Rightarrow> environment \<Rightarrow> monitoring_results \<Rightarrow> monitoring_results step" where
  "codeQuality_step cfg env results =
     (if enabled_codeQuality cfg then
        bind (invoke CodeQualityMonitor (CodeQualityMonitor_monitor cfg env)) (\<lambda>r.
        (\<lambda>w. (w, Inr (results\<lparr>codeQuality := Some r\<rparr>))))
      else (\<lambda>w. (w, Inr results)))"

definition detect_step ::
  "config \<Rightarrow> environment \<Rightarrow> nat \<Rightarrow> monitoring_results \<Rightarrow> anomaly list step" where
  "detect_step cfg env runId results w =
     (let as = detect \<lparr>det_db = store w, det_config = cfg\<rparr> results in
      bind (if length as > 0
            then store_call env InsertAnomalies (insertAnomalies runId as)
            else (\<lambda>w. (w, Inr ()))) (\<lambda>u.
      (\<lambda>w. (w, Inr as))) w)"

text \<open>\<open>Notifier.notify\<close> catches every error of its own body and never throws.\<close>

definition notify_step :: "anomaly list \<Rightarrow> monitoring_results \<Rightarrow> unit step" where
  "notify_step as results w = (w\<lparr>notified := notified w @ [(as, results)]\<rparr>, Inr ())"

record run_success =
  res_runId :: nat
  res_duration :: int
  res_anomalies :: nat
  res_results :: monitoring_results

text \<open>
  The object \<open>run\<close> returns, \<open>{success: true, ...}\<close> or \<open>{success: false, error}\<close>,
  and the two ways \<open>run\<close> can end.
\<close>

datatype run_result = Success run_success | Failure string

datatype run_outcome = Returns run_result | Throws string

text \<open>The \<open>try\<close> block of \<open>run\<close> after \<open>startRun\<close>.\<close>

definition run_body :: "config \<Rightarrow> salesforce_auth \<Rightarrow> environment \<Rightarrow> nat \<Rightarrow> run_result step" where
  "run_body cfg auth env runId =
     bind (\<lambda>w. (w, getConnection auth)) (\<lambda>c.
     bind (debugLogs_step cfg env runId
             \<lparr>debugLogs = None, governorLimits = None, codeQuality = None\<rparr>) (\<lambda>r1.
     bind (governorLimits_step cfg env runId r1) (\<lambda>r2.
     bind (codeQuality_step cfg env r2) (\<lambda>results.
     bind (detect_step cfg env runId results) (\<lambda>as.
     bind (notify_step as results) (\<lambda>u.
     bind (store_call env EndRun (endRun runId Completed (now_done env - now_start env))) (\<lambda>u.
     (\<lambda>w. (w, Inr (Success \<lparr>res_runId = runId, res_duration = now_done env - now_start env,
                              res_anomalies = length as, res_results = results\<rparr>))))))))))"

text \<open>
  \<open>run\<close>: when \<open>startRun\<close> throws, \<open>runId\<close> is still \<open>undefined\<close> and the \<open>catch\<close>
  block skips \<open>endRun\<close>; otherwise it calls \<open>endRun\<close> if \<open>runId\<close> is truthy, outside
  any \<open>try\<close>.
\<close>

definition run :: "config \<Rightarrow> salesforce_auth \<Rightarrow> environment \<Rightarrow> world \<Rightarrow> world \<times> run_outcome" where
  "run cfg auth env w =
     (case startRun_step env w of
        (w1, Inl e) \<Rightarrow> (w1, Returns (Failure e))
      | (w1, Inr runId) \<Rightarrow>
          (case run_body cfg auth env runId w1 of
             (w2, Inr res) \<Rightarrow> (w2, Returns res)
           | (w2, Inl e) \<Rightarrow>
               (if runId \<noteq> 0 then
                  (case store_call env EndRun (endRun runId Failed (now_caught env - now_start env)) w2 of
                     (w3, Inl e') \<Rightarrow> (w3, Throws e')
                   | (w3, Inr u) \<Rightarrow> (w3, Returns (Failure e)))
                else (w2, Returns (Failure e)))))"


section \<open>Notions used in the proofs\<close>

text \<open>
  The count a histogram value stands for (a string stands for none), and the shape of a
  histogram that the loop of \<open>analyzeErrors\<close> maintains: no key twice, no own property
  \<open>__proto__\<close>, and a string exactly under the keys that name an inherited function.
\<close>

definition weight :: "histogram_value \<Rightarrow> nat" where
  "weight v = (case v of Count c \<Rightarrow> c | Text n \<Rightarrow> 0)"

definition well_formed :: "(string \<times> histogram_value) list \<Rightarrow> bool" where
  "well_formed obj \<longleftrightarrow>
     distinct (map fst obj) \<and> ''__proto__'' \<notin> fst ` set obj
     \<and> (\<forall>k v. (k, v) \<in> set obj \<longrightarrow> ((\<exists>c. v = Count c) \<longleftrightarrow> k \<notin> set Object_prototype_functions))"

text \<open>
  The message with which a monitor's \<open>monitor\<close> method throws, if it does; the monitors
  a run has invoked when it reaches a given one; and the records the first two monitors
  return.
\<close>

fun monitor_error :: "config \<Rightarrow> environment \<Rightarrow> monitor_id \<Rightarrow> string option" where
  "monitor_error cfg env DebugLogMonitor =
     (case DebugLogMonitor_monitor cfg env of Inl e \<Rightarrow> Some e | Inr r \<Rightarrow> None)"
| "monitor_error cfg env GovernorLimitMonitor =
     (case GovernorLimitMonitor_monitor cfg env of Inl e \<Rightarrow> Some e | Inr r \<Rightarrow> None)"
| "monitor_error cfg env CodeQualityMonitor =
     (case CodeQualityMonitor_monitor cfg env of Inl e \<Rightarrow> Some e | Inr r \<Rightarrow> None)"

fun monitors_through :: "monitor_id \<Rightarrow> monitor_id list" where
  "monitors_through DebugLogMonitor = [DebugLogMonitor]"
| "monitors_through GovernorLimitMonitor = [DebugLogMonitor, GovernorLimitMonitor]"
| "monitors_through CodeQualityMonitor = [DebugLogMonitor, GovernorLimitMonitor, CodeQualityMonitor]"

definition monitored_errors :: "config \<Rightarrow> environment \<Rightarrow> error_record list" where
  "monitored_errors cfg env =
     (case DebugLogMonitor_monitor cfg env of Inl e \<Rightarrow> [] | Inr r \<Rightarrow> errors r)"

definition monitored_limits :: "config \<Rightarrow> environment \<Rightarrow> limit_record list" where
  "monitored_limits cfg env =
     (case GovernorLimitMonitor_monitor cfg env of Inl e \<Rightarrow> [] | Inr r \<Rightarrow> limitData r)"

section \<open>Sample inputs\<close>

text \<open>The thresholds of the README, one record of each kind, and a fresh store.\<close>

definition sample_config :: config where
  "sample_config =
     \<lparr>enabled_debugLogs = True, enabled_governorLimits = True, enabled_codeQuality = True,
      debugLogHours = Some 24,
      thresholds =
        \<lparr>errorRate_absoluteCount = 2, governorLimits_soqlQueries = 70,
         governorLimits_dmlStatements = 70, governorLimits_cpuTime = 70,
         thresholds_codeQuality =
           \<lparr>cyclomaticComplexity = 15, classLength = 1000, minTestCoverage = 75\<rparr>\<rparr>\<rparr>"

definition sample_error :: error_record where
  "sample_error =
     \<lparr>err_timestamp = ''2024-05-01T10:00:00.000+0000'', logId = ''07L000000000001'',
      errorType = ''Assertion Failed'', errorMessage = ''/apex/Checkout'',
      err_className = ''Checkout'', err_methodName = [], lineNumber = None\<rparr>"

definition sample_usage :: limit_record where
  "sample_usage =
     \<lparr>lim_timestamp = ''2024-05-01T10:00:00.000+0000'', lim_className = ''Checkout'',
      lim_methodName = ''/apex/Checkout'',
      soqlQueriesUsed = 10, soqlQueriesLimit = 100,
      dmlStatementsUsed = 15, dmlStatementsLimit = 150,
      cpuTimeUsed = 8996, cpuTimeLimit = 10000,
      heapSizeUsed = 600000, heapSizeLimit = 6000000\<rparr>"

definition sample_class :: apex_class_row where
  "sample_class =
     \<lparr>row_Name = ''Checkout'', row_LengthWithoutComments = Some 2000, row_ApiVersion = 58,
      row_SymbolTable = Some \<lparr>methods = Some [(), ()]\<rparr>,
      row_random = (\<lambda>i. if i = 0 then 1 / 2 else 9 / 10)\<rparr>"

definition sample_environment :: environment where
  "sample_environment =
     \<lparr>now_start = 1000, now_done = 1500, now_caught = 1400,
      store_fault = (\<lambda>operation. None),
      query_errors = Inr [sample_error, sample_error],
      query_limits = Inr [sample_usage],
      query_classes = Inr [sample_class],
      internal_fault = (\<lambda>m. None)\<rparr>"

definition fresh_world :: world where
  "fresh_world =
     \<lparr>store = \<lparr>monitoring_runs = [], debug_log_errors = [], governor_limits = [],
               anomalies = [], last_run_id = 0\<rparr>,
      invoked = [], notified = []\<rparr>"

definition connected :: salesforce_auth where
  "connected = \<lparr>conn = Some (Connection ''https://example.my.salesforce.com'')\<rparr>"

definition not_authenticated :: salesforce_auth where
  "not_authenticated = \<lparr>conn = None\<rparr>"

text \<open>
  A configuration without \<open>monitoring.intervals.debugLogHours\<close>, an environment in
  which the body of the code quality monitor raises, one in which the store cannot update
  \<open>monitoring_runs\<close>, and two usage records below the threshold that differ in the heap
  size used only.
\<close>

definition config_without_hours :: config where
  "config_without_hours = sample_config\<lparr>debugLogHours := None\<rparr>"

definition quality_fault_environment :: environment where
  "quality_fault_environment =
     sample_environment\<lparr>internal_fault :=
       (\<lambda>m. if m = CodeQualityMonitor
            then Some ''Cannot read properties of undefined''
            else None)\<rparr>"

definition failing_store_environment :: environment where
  "failing_store_environment =
     sample_environment\<lparr>store_fault :=
       (\<lambda>operation. if operation = EndRun then Some ''disk I/O error'' else None)\<rparr>"

definition low_usage :: limit_record where
  "low_usage = sample_usage\<lparr>cpuTimeUsed := 1000\<rparr>"

definition low_usage_more_heap :: limit_record where
  "low_usage_more_heap = low_usage\<lparr>heapSizeUsed := 1200000\<rparr>"

text \<open>
  Three usage records of one class whose SOQL usages 10, 10 and 11 have the average 31/3,
  and the analysis of the records \<open>low_usage\<close> and \<open>sample_usage\<close> as the code
  computes it.
\<close>

definition thirds :: "limit_record list" where
  "thirds = [low_usage, low_usage, low_usage\<lparr>soqlQueriesUsed := 11\<rparr>]"

definition sample_analysis :: limit_analysis where
  "sample_analysis =
     \<lparr>highUsageCount = 1,
      highUsage = [high_usage_entry sample_usage],
      byClass = [(''Checkout'', \<lparr>count = 2, avgSoql = Num 10, avgDml = Num 15, avgCpu = Num 4998\<rparr>)]\<rparr>"

text \<open>An error whose \<open>Status\<close> in \<open>ApexLog\<close> is the text \<open>__proto__\<close>.\<close>

definition proto_error :: error_record where
  "proto_error = sample_error\<lparr>errorType := ''__proto__''\<rparr>"

section \<open>Auxiliary facts\<close>

declare retry_loop.simps [simp del]

lemma floor_rat_numeral [simp]: "\<lfloor>numeral a / numeral b :: rat\<rfloor> = numeral a div numeral b"
  by (metis floor_divide_of_int_eq of_int_numeral)

lemma floor_rat_one_numeral [simp]: "\<lfloor>1 / numeral b :: rat\<rfloor> = 1 div numeral b"
  by (metis floor_divide_of_int_eq of_int_numeral of_int_1)

lemma ceiling_rat_numeral [simp]: "\<lceil>numeral a / numeral b :: rat\<rceil> = - (- numeral a div numeral b)"
  using ceiling_divide_eq_div [of "numeral a" "numeral b"] by simp

lemma floorlog_2_numeral: "floorlog 2 (numeral n) = floorlog 2 (numeral n div 2) + 1"
  by (subst compute_floorlog) simp

lemma floorlog_2_small: "floorlog 2 0 = 0" "floorlog 2 (Suc 0) = 1"
  by (simp_all add: compute_floorlog)

lemmas double_eval =
  to_double_def pow2_def ilog2_def round_even_def Let_def floorlog_2_numeral floorlog_2_small
  number_def js_div_def


subsection \<open>Integers as doubles\<close>

text \<open>
  The natural numbers below \<open>2 ^ 53\<close> are doubles, and so are their sums below that
  bound: the sums of the analysis of limits are exact.
\<close>

lemma pow2_nonpos: "e \<le> 0 \<Longrightarrow> pow2 e = 1 / 2 ^ nat (- e)"
  by (cases "e = 0") (simp_all add: pow2_def)

lemma round_even_of_int: "round_even (of_int z) = z"
  by (simp add: round_even_def)

lemma to_double_nat:
  assumes "n < 2 ^ 53"
  shows "to_double (of_nat n) = Num (of_nat n)"
proof (cases "n = 0")
  case True
  then show ?thesis by (simp add: to_double_def)
next
  case False
  define e where "e = max (ilog2 (of_nat n) - 52) (- 1074)"
  have "floorlog 2 n \<le> 53"
    using assms by (simp add: floorlog_le_iff)
  moreover have "ilog2 (of_nat n) = int (floorlog 2 n) - 1"
    using False by (simp add: ilog2_def)
  ultimately have "e \<le> 0"
    by (simp add: e_def)
  then have p: "pow2 e = 1 / 2 ^ nat (- e)"
    by (rule pow2_nonpos)
  have "of_nat n / pow2 e = (of_int (int n * 2 ^ nat (- e)) :: rat)"
    by (simp add: p)
  then have r: "round_even (of_nat n / pow2 e) = int n * 2 ^ nat (- e)"
    by (simp only: round_even_of_int)
  have v: "of_int (round_even (of_nat n / pow2 e)) * pow2 e = (of_nat n :: rat)"
    unfolding r by (simp add: p)
  have "(of_nat n :: rat) < of_nat (2 ^ 53)"
    using assms by (simp only: of_nat_less_iff)
  also have "\<dots> \<le> pow2 1024"
    by (simp add: pow2_def)
  finally have small: "\<not> pow2 1024 \<le> (of_nat n :: rat)"
    by simp
  show ?thesis
    using False small by (simp add: to_double_def Let_def e_def [symmetric] v)
qed

lemma number_exact: "n < 2 ^ 53 \<Longrightarrow> number n = Num (of_nat n)"
  by (simp add: number_def to_double_nat)

lemma js_plus_exact:
  assumes "a + b < 2 ^ 53"
  shows "js_plus (Num (of_nat a)) (number b) = Num (of_nat (a + b))"
proof -
  have "b < 2 ^ 53"
    using assms by simp
  then show ?thesis
    using to_double_nat [OF assms] by (simp add: number_exact)
qed

lemma sum_exact:
  assumes "a + sum_list ns < 2 ^ 53"
  shows "foldl js_plus (Num (of_nat a)) (map number ns) = Num (of_nat (a + sum_list ns))"
  using assms
proof (induction ns arbitrary: a)
  case Nil
  then show ?case by simp
next
  case (Cons n ns)
  then have "a + n < 2 ^ 53" and "(a + n) + sum_list ns < 2 ^ 53"
    by simp_all
  with Cons.IH [of "a + n"] show ?case
    by (simp add: js_plus_exact add.assoc)
qed


section \<open>The retry primitive\<close>

lemma retry_loop_all_fail:
  assumes "\<forall>k. fn k = Inl (e k)" and "a \<le> n"
  shows "retry_loop fn n delay a le evs = (evs @ failed_attempts delay a n, Inl (Some (e n)))"
  using assms(2)
proof (induction "n - a" arbitrary: a le evs)
  case 0
  then have an: "a = n" by simp
  have after: "retry_loop fn n delay (Suc n) (Some (e n)) (evs @ [Invoke n])
      = (evs @ [Invoke n], Inl (Some (e n)))"
    by (subst retry_loop.simps) simp
  show ?case
    unfolding an
    by (subst retry_loop.simps) (simp add: assms(1) after failed_attempts_def)
next
  case (Suc d)
  then have lt: "a < n" and d: "d = n - (a + 1)" and le': "a + 1 \<le> n" by simp_all
  have split: "[a..<n] = a # [a + 1..<n]"
    using lt by (simp add: upt_rec)
  have "retry_loop fn n delay a le evs
      = retry_loop fn n delay (a + 1) (Some (e a))
          (evs @ [Invoke a, Sleep (delay * 2 ^ (a - 1))])"
    using lt by (subst retry_loop.simps) (simp add: assms(1))
  also have "\<dots> = ((evs @ [Invoke a, Sleep (delay * 2 ^ (a - 1))]) @ failed_attempts delay (a + 1) n,
      Inl (Some (e n)))"
    by (rule Suc.hyps(1) [OF d le'])
  finally show ?case
    by (simp add: failed_attempts_def split)
qed

lemma retry_all_fail:
  assumes "\<forall>k. fn k = Inl (e k)" and "1 \<le> n"
  shows "retry fn n delay = (failed_attempts delay 1 n, Inl (Thrown (e n)))"
proof -
  have "Suc 0 \<le> n"
    using assms(2) by simp
  from retry_loop_all_fail [OF assms(1) this] show ?thesis
    by (simp add: retry_def)
qed

lemma failed_attempts_3: "failed_attempts 1000 1 3 = [Invoke 1, Sleep 1000, Invoke 2, Sleep 2000, Invoke 3]"
proof -
  have "[1..<3] = [1, 2::nat]"
    by (simp add: upt_rec)
  then show ?thesis
    by (simp add: failed_attempts_def)
qed

text \<open>
  Claim C3. With \<open>maxRetries = 3\<close> and \<open>delay = 1000\<close>, an operation that throws at
  every invocation is invoked exactly three times, with a sleep of 1000 ms between the
  first and the second invocation and of 2000 ms between the second and the third, and
  \<open>retry\<close> then throws the very error of the third invocation. In general, with
  \<open>n \<ge> 1\<close> attempts, the sleep after the failed attempt \<open>k < n\<close> lasts
  \<open>delay * 2 ^ (k - 1)\<close> ms and the error thrown is that of attempt \<open>n\<close>.
\<close>

theorem retry_three_attempts_backoff:
  assumes "\<forall>k. fn k = Inl (e k)"
  shows "retry fn 3 1000 = ([Invoke 1, Sleep 1000, Invoke 2, Sleep 2000, Invoke 3], Inl (Thrown (e 3)))
       \<and> (\<forall>n delay. 1 \<le> n \<longrightarrow>
            retry fn n delay
              = (concat (map (\<lambda>k. [Invoke k, Sleep (delay * 2 ^ (k - 1))]) [1..<n]) @ [Invoke n],
                 Inl (Thrown (e n))))"
proof -
  have "retry fn 3 1000 = (failed_attempts 1000 1 3, Inl (Thrown (e 3)))"
    using retry_all_fail [OF assms, of 3 1000] by simp
  then have first: "retry fn 3 1000
      = ([Invoke 1, Sleep 1000, Invoke 2, Sleep 2000, Invoke 3], Inl (Thrown (e 3)))"
    by (simp only: failed_attempts_3)
  have general: "\<forall>n delay. 1 \<le> n \<longrightarrow>
      retry fn n delay
        = (concat (map (\<lambda>k. [Invoke k, Sleep (delay * 2 ^ (k - 1))]) [1..<n]) @ [Invoke n],
           Inl (Thrown (e n)))"
    using retry_all_fail [OF assms] by (simp add: failed_attempts_def)
  from first general show ?thesis by (rule conjI)
qed

theorem retry_three_attempts_backoff_witness:
  "retry (\<lambda>k. Inl (''login failed'', k) :: (string \<times> nat) + unit) 3 1000
     = ([Invoke 1, Sleep 1000, Invoke 2, Sleep 2000, Invoke 3], Inl (Thrown (''login failed'', 3)))
   \<and> retry (\<lambda>k. Inl (''login failed'', k) :: (string \<times> nat) + unit) 2 500
     = ([Invoke 1, Sleep 500, Invoke 2], Inl (Thrown (''login failed'', 2)))"
proof -
  let ?fn = "\<lambda>k. Inl (''login failed'', k) :: (string \<times> nat) + unit"
  have fails: "\<forall>k. ?fn k = Inl (''login failed'', k)"
    by simp
  have two: "[Suc 0..<2] = [Suc 0]"
    by (simp add: upt_rec)
  from retry_three_attempts_backoff [OF fails]
  have first: "retry ?fn 3 1000
      = ([Invoke 1, Sleep 1000, Invoke 2, Sleep 2000, Invoke 3], Inl (Thrown (''login failed'', 3)))"
    and general: "\<forall>n delay. 1 \<le> n \<longrightarrow> retry ?fn n delay
      = (concat (map (\<lambda>k. [Invoke k, Sleep (delay * 2 ^ (k - 1))]) [1..<n]) @ [Invoke n],
         Inl (Thrown (''login failed'', n)))"
    by blast+
  from general have "retry ?fn 2 500
      = (concat (map (\<lambda>k. [Invoke k, Sleep (500 * 2 ^ (k - 1))]) [1..<2]) @ [Invoke 2],
         Inl (Thrown (''login failed'', 2)))"
    by simp
  then have second: "retry ?fn 2 500 = ([Invoke 1, Sleep 500, Invoke 2], Inl (Thrown (''login failed'', 2)))"
    by (simp add: two)
  from first second show ?thesis
    by (rule conjI)
qed


section \<open>The summary of the errors\<close>

lemma counts_weight: "sum_list (counts obj) = sum_list (map (\<lambda>p. weight (snd p)) obj)"
  by (induction obj) (auto simp: counts_def weight_def split: histogram_value.splits)

lemma weight_update_new:
  "map_of obj k = None \<Longrightarrow>
     sum_list (map (\<lambda>p. weight (snd p)) (AList.update k v obj))
       = sum_list (map (\<lambda>p. weight (snd p)) obj) + weight v"
  by (induction obj) auto

lemma weight_update_old:
  "map_of obj k = Some u \<Longrightarrow>
     sum_list (map (\<lambda>p. weight (snd p)) (AList.update k v obj)) + weight u
       = sum_list (map (\<lambda>p. weight (snd p)) obj) + weight v"
  by (induction obj) auto

lemma well_formed_lookup:
  assumes "well_formed obj" and "map_of obj k = Some v"
  shows "(\<exists>c. v = Count c) \<longleftrightarrow> k \<notin> set Object_prototype_functions"
  using assms map_of_SomeD [OF assms(2)] by (auto simp: well_formed_def)

lemma increment_proto: "increment ''__proto__'' obj = obj"
  by (simp add: increment_def)

lemma keys_increment:
  "k \<noteq> ''__proto__'' \<Longrightarrow> fst ` set (increment k obj) = insert k (fst ` set obj)"
  by (simp add: increment_def dom_update)

lemma set_update_subset:
  "(k', v') \<in> set (AList.update k v obj) \<Longrightarrow> (k', v') = (k, v) \<or> (k', v') \<in> set obj"
  by (induction obj) (auto split: if_splits)

lemma well_formed_increment:
  assumes "well_formed obj"
  shows "well_formed (increment k obj)"
proof (cases "k = ''__proto__''")
  case True
  with assms show ?thesis by (simp add: increment_proto)
next
  case False
  let ?v = "case map_of obj k of
                Some (Count c) \<Rightarrow> Count (c + 1)
              | Some (Text n) \<Rightarrow> Text (n + 1)
              | None \<Rightarrow> if k \<in> set Object_prototype_functions then Text 1 else Count 1"
  have new: "(\<exists>c. ?v = Count c) \<longleftrightarrow> k \<notin> set Object_prototype_functions"
  proof (cases "map_of obj k")
    case None
    then show ?thesis by simp
  next
    case (Some u)
    with well_formed_lookup [OF assms Some] show ?thesis
      by (cases u) auto
  qed
  have inc: "increment k obj = AList.update k ?v obj"
    using False by (simp add: increment_def)
  have "distinct (map fst (AList.update k ?v obj))"
    using assms by (simp add: well_formed_def distinct_update)
  moreover have "''__proto__'' \<notin> fst ` set (AList.update k ?v obj)"
    using assms False by (simp add: well_formed_def dom_update)
  moreover have "(\<exists>c. v' = Count c) \<longleftrightarrow> k' \<notin> set Object_prototype_functions"
    if "(k', v') \<in> set (AList.update k ?v obj)" for k' v'
    using set_update_subset [OF that] new assms by (auto simp: well_formed_def)
  ultimately show ?thesis
    unfolding inc well_formed_def by blast
qed

lemma weight_increment:
  assumes "well_formed obj"
  shows "sum_list (map (\<lambda>p. weight (snd p)) (increment k obj))
     = sum_list (map (\<lambda>p. weight (snd p)) obj) + (if inherited k then 0 else 1)"
proof (cases "k = ''__proto__''")
  case True
  then show ?thesis by (simp add: increment_proto inherited_def)
next
  case False
  show ?thesis
  proof (cases "map_of obj k")
    case None
    from weight_update_new [OF None] False show ?thesis
      by (simp add: increment_def None inherited_def weight_def)
  next
    case (Some u)
    show ?thesis
    proof (cases u)
      case (Count c)
      with well_formed_lookup [OF assms Some] have "k \<notin> set Object_prototype_functions"
        by simp
      with weight_update_old [OF Some, of "Count (c + 1)"] False Count show ?thesis
        by (simp add: increment_def Some inherited_def weight_def)
    next
      case (Text n)
      with well_formed_lookup [OF assms Some] have "k \<in> set Object_prototype_functions"
        by simp
      with weight_update_old [OF Some, of "Text (n + 1)"] False Text show ?thesis
        by (simp add: increment_def Some inherited_def weight_def)
    qed
  qed
qed

lemma analyzeErrors_loop:
  assumes "well_formed (fst acc)"
  shows "well_formed (fst (foldl analyzeErrors_step acc errs))
   \<and> fst ` set (fst (foldl analyzeErrors_step acc errs))
       = fst ` set (fst acc) \<union> (errorType ` set errs - {''__proto__''})
   \<and> sum_list (map (\<lambda>p. weight (snd p)) (fst (foldl analyzeErrors_step acc errs)))
       = sum_list (map (\<lambda>p. weight (snd p)) (fst acc))
         + length (filter (\<lambda>e. \<not> inherited (errorType e)) errs)"
  using assms
proof (induction errs arbitrary: acc)
  case Nil
  then show ?case by simp
next
  case (Cons e errs)
  have step: "fst (analyzeErrors_step acc e) = increment (errorType e) (fst acc)"
    by (simp add: analyzeErrors_step_def)
  have wf: "well_formed (fst (analyzeErrors_step acc e))"
    unfolding step by (rule well_formed_increment [OF Cons.prems])
  have keys: "fst ` set (increment (errorType e) (fst acc))
      = fst ` set (fst acc) \<union> ({errorType e} - {''__proto__''})"
    by (cases "errorType e = ''__proto__''") (simp_all add: increment_proto keys_increment)
  from Cons.IH [OF wf] show ?case
    by (auto simp: step keys weight_increment [OF Cons.prems])
qed

lemma length_Object_keys: "length (Object_keys obj) = length obj"
proof -
  have "length (filter P ks) + length (filter (\<lambda>k. \<not> P k) ks) = length ks" for P and ks :: "string list"
    by (induction ks) simp_all
  from this [of is_array_index "map fst obj"] show ?thesis
    unfolding Object_keys_def by (simp only: length_append length_sort length_map)
qed

text \<open>
  Claim C10. For every list of error records, \<open>totalErrors\<close> is the length of the
  list. \<open>uniqueErrorTypes\<close> is the number of distinct error types other than
  \<open>__proto__\<close>, and the counts of the histogram sum to the number of records whose
  error type is not the name of a property inherited from \<open>Object.prototype\<close>: an
  assignment to \<open>errorTypes['__proto__']\<close> stores nothing, and under the name of an
  inherited function the histogram holds a string, not a count. So the two equations of
  the claim hold for the lists without such an error type, and fail for the others.
\<close>

theorem analyzeErrors_summary:
  "totalErrors (analyzeErrors errs) = length errs
   \<and> uniqueErrorTypes (analyzeErrors errs) = card (errorType ` set errs - {''__proto__''})
   \<and> sum_list (counts (errorTypes (analyzeErrors errs)))
       = length (filter (\<lambda>e. \<not> inherited (errorType e)) errs)"
proof -
  let ?obj = "fst (foldl analyzeErrors_step ([], []) errs)"
  have "well_formed (fst (([], []) :: (string \<times> histogram_value) list \<times> (string \<times> histogram_value) list))"
    by (simp add: well_formed_def)
  from analyzeErrors_loop [OF this, of errs]
  have wf: "well_formed ?obj"
    and keys: "fst ` set ?obj = errorType ` set errs - {''__proto__''}"
    and total: "sum_list (map (\<lambda>p. weight (snd p)) ?obj)
      = length (filter (\<lambda>e. \<not> inherited (errorType e)) errs)"
    by simp_all
  have "length ?obj = length (map fst ?obj)"
    by simp
  also have "\<dots> = card (set (map fst ?obj))"
    using wf by (simp only: well_formed_def distinct_card)
  also have "\<dots> = card (errorType ` set errs - {''__proto__''})"
    using keys by simp
  finally have unique: "length ?obj = card (errorType ` set errs - {''__proto__''})" .
  show ?thesis
    by (simp add: analyzeErrors_def Let_def length_Object_keys unique counts_weight total)
qed

text \<open>
  The failing input: one error of type \<open>__proto__\<close> and one of type
  \<open>Assertion Failed\<close>. There are two records and two distinct error types; the
  summary has one error type, and its counts sum to 1.
\<close>

theorem analyzeErrors_summary_witness:
  "totalErrors (analyzeErrors [proto_error, sample_error]) = 2
   \<and> card (errorType ` set [proto_error, sample_error]) = 2
   \<and> uniqueErrorTypes (analyzeErrors [proto_error, sample_error]) = 1
   \<and> sum_list (counts (errorTypes (analyzeErrors [proto_error, sample_error]))) = 1
   \<and> errorTypes (analyzeErrors [proto_error, sample_error]) = [(''Assertion Failed'', Count 1)]"
proof -
  have types: "errorType proto_error = ''__proto__''" "errorType sample_error = ''Assertion Failed''"
    by (simp_all add: proto_error_def sample_error_def)
  have histogram: "errorTypes (analyzeErrors [proto_error, sample_error]) = [(''Assertion Failed'', Count 1)]"
    by (simp add: analyzeErrors_def analyzeErrors_step_def increment_def types
        Object_prototype_functions_def)
  from analyzeErrors_summary [of "[proto_error, sample_error]"] show ?thesis
    by (simp add: types inherited_def Object_prototype_functions_def card_insert_if histogram)
qed


section \<open>The analysis of governor limits\<close>

lemma highUsage_loop:
  "fst (foldl (analyzeLimits_step t) acc lds)
     = fst acc @ map high_usage_entry (filter (\<lambda>d. js_ge (maxPercentUsed d) t) lds)"
  by (induction lds arbitrary: acc) (simp_all add: analyzeLimits_step_def)

lemma byClass_loop:
  "snd (foldl (analyzeLimits_step t) acc lds) = foldl (\<lambda>obj d. aggregate d obj) (snd acc) lds"
  by (induction lds arbitrary: acc) (simp_all add: analyzeLimits_step_def)

lemma analyzeLimits_Inr:
  assumes "analyzeLimits t lds = Inr a"
  shows "highUsage a = map high_usage_entry (filter (\<lambda>d. js_ge (maxPercentUsed d) t) lds)"
    and "highUsageCount a = length (highUsage a)"
    and "byClass a = map (\<lambda>(k, c). (k, averages c)) (foldl (\<lambda>obj d. aggregate d obj) [] lds)"
  using assms
  by (auto simp: analyzeLimits_def Let_def highUsage_loop byClass_loop split: if_splits)

lemma not_polluted:
  "''__proto__'' \<notin> lim_className ` set lds \<Longrightarrow> \<not> prototype_polluted lds obj"
  by (simp add: prototype_polluted_def)

lemma analyzeLimits_returns:
  assumes "''__proto__'' \<notin> lim_className ` set lds"
  shows "analyzeLimits t lds =
     Inr \<lparr>highUsageCount = length (filter (\<lambda>d. js_ge (maxPercentUsed d) t) lds),
          highUsage = map high_usage_entry (filter (\<lambda>d. js_ge (maxPercentUsed d) t) lds),
          byClass = map (\<lambda>(k, c). (k, averages c)) (foldl (\<lambda>obj d. aggregate d obj) [] lds)\<rparr>"
  by (simp add: analyzeLimits_def Let_def not_polluted [OF assms] highUsage_loop byClass_loop)

subsection \<open>The percentages of the sample records\<close>

text \<open>
  In double arithmetic \<open>10 / 100 * 100\<close> is 10, and \<open>8996 / 10000 * 100\<close> is the
  double next to 89.96, which \<open>toFixed(1)\<close> prints as \<open>90.0\<close>. The quotient
  \<open>57 / 100\<close> is rounded down, and its product with 100 is the double below 57.
\<close>

lemma sample_soql: "soqlPercent sample_usage = Num 10"
  by (simp add: soqlPercent_def sample_usage_def double_eval)

lemma sample_dml: "dmlPercent sample_usage = Num 10"
  by (simp add: dmlPercent_def sample_usage_def double_eval)

lemma sample_heap: "heapPercent sample_usage = Num 10"
  by (simp add: heapPercent_def sample_usage_def double_eval)

lemma sample_cpu: "cpuPercent sample_usage = Num (6330372226222653 / 70368744177664)"
  by (simp add: cpuPercent_def sample_usage_def double_eval)

lemma sample_percent: "maxPercentUsed sample_usage = Num (6330372226222653 / 70368744177664)"
  by (simp add: maxPercentUsed_def Math_max_def sample_soql sample_dml sample_heap sample_cpu)

lemma sample_rounded: "parseFloat (toFixed1 (maxPercentUsed sample_usage)) = Num 90"
  by (simp add: sample_percent double_eval)

lemma low_percent: "maxPercentUsed low_usage = Num 10"
  by (simp add: maxPercentUsed_def Math_max_def soqlPercent_def dmlPercent_def cpuPercent_def
      heapPercent_def sample_usage_def low_usage_def double_eval)

lemma low_more_heap_percent: "maxPercentUsed low_usage_more_heap = Num 20"
  by (simp add: maxPercentUsed_def Math_max_def soqlPercent_def dmlPercent_def cpuPercent_def
      heapPercent_def sample_usage_def low_usage_def low_usage_more_heap_def double_eval)

lemma percent_of_57:
  "js_times (js_div 57 100) 100 = Num (8022036836253695 / 140737488355328)
   \<and> \<not> js_ge (js_times (js_div 57 100) 100) 57"
  by (simp add: double_eval)

text \<open>
  \<open>toFixed(1)\<close> rounds the value of the double, not the decimal it was written as:
  \<open>(7 / 20).toFixed(1)\<close> is \<open>0.3\<close>, the double next to 0.35 being below it, and
  \<open>(70.05).toFixed(1)\<close> is \<open>70.0\<close>.
\<close>

lemma toFixed1_of_doubles:
  "js_div 7 20 = Num (3152519739159347 / 9007199254740992)"
  "toFixed1 (js_div 7 20) = Num (3 / 10)"
  "toFixed1 (to_double (7005 / 100)) = Num 70"
  by (simp_all add: double_eval)

lemma sample_classes [simp]:
  "lim_className sample_usage = ''Checkout''" "lim_className low_usage = ''Checkout''"
  "lim_className low_usage_more_heap = ''Checkout''"
  by (simp_all add: sample_usage_def low_usage_def low_usage_more_heap_def)

lemma Checkout_own [simp]: "\<not> inherited ''Checkout''"
  by (simp add: inherited_def Object_prototype_functions_def)

lemma sample_averages:
  "averages (add_usage sample_usage (add_usage low_usage
      \<lparr>sum_count = 0, sumSoql = Num 0, sumDml = Num 0, sumCpu = Num 0\<rparr>))
     = \<lparr>count = 2, avgSoql = Num 10, avgDml = Num 15, avgCpu = Num 4998\<rparr>"
  by (simp add: averages_def add_usage_def sample_usage_def low_usage_def double_eval)

lemma sample_analysis_computed: "analyzeLimits 70 [low_usage, sample_usage] = Inr sample_analysis"
  by (simp add: analyzeLimits_returns sample_analysis_def low_percent sample_percent
      aggregate_def sample_averages)

subsection \<open>Anomalies of high usage\<close>

text \<open>
  Claim C1. When \<open>analyzeLimits\<close> returns, the detector emits exactly one anomaly, of type
  \<open>HIGH_GOVERNOR_LIMIT_USAGE\<close>, for each record whose maximum percentage, as computed in
  double arithmetic, is at least \<open>thresholds.governorLimits.soqlQueries\<close>, in the order
  of the records, and none for the other records. The severity is not decided on the
  maximum percentage, as the claim has it, but on \<open>parseFloat\<close> of the string that
  \<open>toFixed(1)\<close> made of it: CRITICAL if that number is at least 90, HIGH if it is at
  least 80, MEDIUM otherwise. A record with a maximum percentage in \<open>[89.95, 90)\<close> is
  therefore CRITICAL, where the claim and the README (CRITICAL above 90 percent of a limit)
  have HIGH.
\<close>

theorem limit_anomaly_per_high_usage_record:
  assumes "analyzeLimits t lds = Inr a"
  shows "detectLimitAnomalies \<lparr>limitData = lds, analysis = a\<rparr>
     = map (\<lambda>d. usage_anomaly (high_usage_entry d)) (filter (\<lambda>d. js_ge (maxPercentUsed d) t) lds)
   \<and> (\<forall>d. anomaly_type (usage_anomaly (high_usage_entry d)) = HIGH_GOVERNOR_LIMIT_USAGE
        \<and> severity (usage_anomaly (high_usage_entry d))
            = (if js_ge (parseFloat (toFixed1 (maxPercentUsed d))) 90 then CRITICAL
               else if js_ge (parseFloat (toFixed1 (maxPercentUsed d))) 80 then HIGH
               else MEDIUM))"
proof -
  have list: "detectLimitAnomalies \<lparr>limitData = lds, analysis = a\<rparr>
     = map (\<lambda>d. usage_anomaly (high_usage_entry d)) (filter (\<lambda>d. js_ge (maxPercentUsed d) t) lds)"
    by (simp add: detectLimitAnomalies_def analyzeLimits_Inr [OF assms])
  have per_record: "anomaly_type (usage_anomaly (high_usage_entry d)) = HIGH_GOVERNOR_LIMIT_USAGE
        \<and> severity (usage_anomaly (high_usage_entry d))
            = (if js_ge (parseFloat (toFixed1 (maxPercentUsed d))) 90 then CRITICAL
               else if js_ge (parseFloat (toFixed1 (maxPercentUsed d))) 80 then HIGH
               else MEDIUM)" for d
    by (simp add: usage_anomaly_def usage_severity_def high_usage_entry_def)
  from list per_record show ?thesis
    by blast
qed

text \<open>
  The failing input: 8996 ms of 10000 ms CPU time used. The maximum percentage is the
  double next to 89.96, which is below 90, and the one anomaly emitted is CRITICAL. The
  record with 1000 ms used is below the threshold 70 and has no anomaly.
\<close>

theorem limit_anomaly_per_high_usage_record_witness:
  "analyzeLimits 70 [low_usage, sample_usage] = Inr sample_analysis
   \<and> detectLimitAnomalies \<lparr>limitData = [low_usage, sample_usage], analysis = sample_analysis\<rparr>
       = [usage_anomaly (high_usage_entry sample_usage)]
   \<and> anomaly_type (usage_anomaly (high_usage_entry sample_usage)) = HIGH_GOVERNOR_LIMIT_USAGE
   \<and> severity (usage_anomaly (high_usage_entry sample_usage)) = CRITICAL
   \<and> maxPercentUsed sample_usage = Num (6330372226222653 / 70368744177664)
   \<and> \<not> js_ge (maxPercentUsed sample_usage) 90"
  using limit_anomaly_per_high_usage_record [OF sample_analysis_computed]
  by (simp add: sample_analysis_computed low_percent sample_rounded) (simp add: sample_percent)

subsection \<open>Averages by class\<close>

lemma aggregate_inherited: "inherited (lim_className d) \<Longrightarrow> aggregate d obj = obj"
  by (simp add: aggregate_def)

lemma map_of_aggregate:
  "\<not> inherited (lim_className d) \<Longrightarrow>
   map_of (aggregate d obj) c =
     (if lim_className d = c
      then Some (add_usage d (case map_of obj c of
                   None \<Rightarrow> \<lparr>sum_count = 0, sumSoql = Num 0, sumDml = Num 0, sumCpu = Num 0\<rparr>
                 | Some s \<Rightarrow> s))
      else map_of obj c)"
  by (auto simp: aggregate_def update_conv')

lemma distinct_aggregate: "distinct (map fst obj) \<Longrightarrow> distinct (map fst (aggregate d obj))"
  by (simp add: aggregate_def distinct_update)

lemma add_usage_fold:
  "foldl (\<lambda>s d. add_usage d s) s0 ds =
     \<lparr>sum_count = sum_count s0 + length ds,
      sumSoql = foldl js_plus (sumSoql s0) (map (\<lambda>d. number (soqlQueriesUsed d)) ds),
      sumDml = foldl js_plus (sumDml s0) (map (\<lambda>d. number (dmlStatementsUsed d)) ds),
      sumCpu = foldl js_plus (sumCpu s0) (map (\<lambda>d. number (cpuTimeUsed d)) ds)\<rparr>"
  by (induction ds arbitrary: s0) (simp_all add: add_usage_def)

lemma aggregate_fold:
  assumes "\<not> inherited c"
  shows "map_of (foldl (\<lambda>obj d. aggregate d obj) obj lds) c =
     (if filter (\<lambda>d. lim_className d = c) lds = [] then map_of obj c
      else Some (foldl (\<lambda>s d. add_usage d s)
             (case map_of obj c of
                None \<Rightarrow> \<lparr>sum_count = 0, sumSoql = Num 0, sumDml = Num 0, sumCpu = Num 0\<rparr>
              | Some s \<Rightarrow> s)
             (filter (\<lambda>d. lim_className d = c) lds)))"
proof (induction lds arbitrary: obj)
  case Nil
  show ?case by simp
next
  case (Cons d lds)
  show ?case
  proof (cases "inherited (lim_className d)")
    case True
    with assms have "lim_className d \<noteq> c"
      by auto
    with True show ?thesis
      by (simp add: Cons.IH aggregate_inherited)
  next
    case False
    then show ?thesis
      by (simp add: Cons.IH map_of_aggregate)
  qed
qed

lemma distinct_aggregate_fold:
  "distinct (map fst obj) \<Longrightarrow> distinct (map fst (foldl (\<lambda>obj d. aggregate d obj) obj lds))"
  by (induction lds arbitrary: obj) (simp_all add: distinct_aggregate)

lemma map_of_averages:
  "map_of (map (\<lambda>(k, c). (k, averages c)) obj) c = map_option averages (map_of obj c)"
  by (induction obj) auto

text \<open>
  The sums are sums of doubles. They are exact as long as they stay below \<open>2 ^ 53\<close>, and
  then an average is the quotient of the sum by the count, rounded to a double.
\<close>

lemma average_of_exact_sum:
  assumes "sum_list ns < 2 ^ 53" and "length ns < 2 ^ 53" and "ns \<noteq> []"
  shows "js_divide (foldl js_plus (Num 0) (map number ns)) (number (length ns))
     = to_double (of_nat (sum_list ns) / of_nat (length ns))"
proof -
  have "foldl js_plus (Num (of_nat 0)) (map number ns) = Num (of_nat (0 + sum_list ns))"
    using assms(1) by (intro sum_exact) simp
  then show ?thesis
    using assms(2,3) by (simp add: number_exact)
qed

text \<open>
  Claim C6, as stated, fails. The analysis keeps no average of the heap size: two inputs
  that differ only in the heap size used (600000 and 1200000 bytes) have the same
  analysis. The three averages it does keep are the strings of \<open>toFixed(1)\<close>: the SOQL
  usages 10, 10 and 11 of one class have the average 31/3, and the analysis holds 10.3.
\<close>

theorem heap_average_counterexample:
  "analyzeLimits 70 [low_usage] = analyzeLimits 70 [low_usage_more_heap]
   \<and> heapSizeUsed low_usage = 600000
   \<and> heapSizeUsed low_usage_more_heap = 1200000
   \<and> map_of (byClass (projr (analyzeLimits 70 thirds))) ''Checkout''
       = Some \<lparr>count = 3, avgSoql = Num (103 / 10), avgDml = Num 15, avgCpu = Num 1000\<rparr>"
  by (simp add: analyzeLimits_returns thirds_def low_percent low_more_heap_percent aggregate_def
      averages_def add_usage_def)
    (simp add: sample_usage_def low_usage_def low_usage_more_heap_def double_eval)

text \<open>
  Claim C6, amended. For every input without a class named \<open>__proto__\<close> the analysis
  returns, and for every class that appears in the input records and does not bear the name
  of a function inherited from \<open>Object.prototype\<close>, \<open>byClass\<close> holds one entry: the
  number of records of the class and the averages of the used SOQL queries, DML statements
  and CPU time over these records, each computed in double arithmetic (the sum from left
  to right, divided by the count) and printed with one decimal by \<open>toFixed(1)\<close>. It
  holds no entry for a class that does not appear, and no average of the heap size.
\<close>

theorem byClass_averages:
  assumes "''__proto__'' \<notin> lim_className ` set lds" and "\<not> inherited c"
  shows "\<exists>a. analyzeLimits t lds = Inr a
    \<and> distinct (map fst (byClass a))
    \<and> map_of (byClass a) c =
     (if c \<in> lim_className ` set lds
      then Some \<lparr>count = length (filter (\<lambda>d. lim_className d = c) lds),
                 avgSoql = toFixed1 (js_divide
                   (foldl js_plus (Num 0)
                      (map (\<lambda>d. number (soqlQueriesUsed d)) (filter (\<lambda>d. lim_className d = c) lds)))
                   (number (length (filter (\<lambda>d. lim_className d = c) lds)))),
                 avgDml = toFixed1 (js_divide
                   (foldl js_plus (Num 0)
                      (map (\<lambda>d. number (dmlStatementsUsed d)) (filter (\<lambda>d. lim_className d = c) lds)))
                   (number (length (filter (\<lambda>d. lim_className d = c) lds)))),
                 avgCpu = toFixed1 (js_divide
                   (foldl js_plus (Num 0)
                      (map (\<lambda>d. number (cpuTimeUsed d)) (filter (\<lambda>d. lim_className d = c) lds)))
                   (number (length (filter (\<lambda>d. lim_className d = c) lds))))\<rparr>
      else None)"
proof -
  let ?recs = "filter (\<lambda>d. lim_className d = c) lds"
  let ?obj = "foldl (\<lambda>obj d. aggregate d obj) [] lds"
  define a where "a = \<lparr>highUsageCount = length (filter (\<lambda>d. js_ge (maxPercentUsed d) t) lds),
      highUsage = map high_usage_entry (filter (\<lambda>d. js_ge (maxPercentUsed d) t) lds),
      byClass = map (\<lambda>(k, c). (k, averages c)) ?obj\<rparr>"
  have result: "analyzeLimits t lds = Inr a"
    by (simp add: analyzeLimits_returns [OF assms(1)] a_def)
  have empty: "?recs = [] \<longleftrightarrow> c \<notin> lim_className ` set lds"
    by (auto simp: filter_empty_conv)
  have keys: "fst \<circ> (\<lambda>(k, c). (k, averages c)) = (fst :: string \<times> class_sums \<Rightarrow> string)"
    by (auto simp: fun_eq_iff)
  have "distinct (map fst ?obj)"
    by (rule distinct_aggregate_fold) simp
  then have dist: "distinct (map fst (byClass a))"
    by (simp add: a_def keys)
  have "map_of (byClass a) c = map_option averages (map_of ?obj c)"
    by (simp add: a_def map_of_averages)
  also have "\<dots> = (if ?recs = [] then None
      else Some (averages (foldl (\<lambda>s d. add_usage d s)
             \<lparr>sum_count = 0, sumSoql = Num 0, sumDml = Num 0, sumCpu = Num 0\<rparr> ?recs)))"
    by (simp add: aggregate_fold [OF assms(2)])
  finally have entry: "map_of (byClass a) c = (if ?recs = [] then None
      else Some (averages (foldl (\<lambda>s d. add_usage d s)
             \<lparr>sum_count = 0, sumSoql = Num 0, sumDml = Num 0, sumCpu = Num 0\<rparr> ?recs)))" .
  show ?thesis
    using result dist entry by (simp add: empty add_usage_fold averages_def)
qed

theorem byClass_averages_witness:
  "analyzeLimits 70 [low_usage, sample_usage] = Inr sample_analysis
   \<and> map_of (byClass sample_analysis) ''Checkout''
       = Some \<lparr>count = 2, avgSoql = Num 10, avgDml = Num 15, avgCpu = Num 4998\<rparr>
   \<and> toFixed1 (js_divide (js_plus (js_plus (Num 0) (number 1000)) (number 8996)) (number 2))
       = Num 4998
   \<and> map_of (byClass sample_analysis) ''Cart'' = None"
proof -
  have Cart: "\<not> inherited ''Cart''"
    by (simp add: inherited_def Object_prototype_functions_def)
  have absent: "''__proto__'' \<notin> lim_className ` set [low_usage, sample_usage]"
    by simp
  from byClass_averages [OF absent Checkout_own, of 70] byClass_averages [OF absent Cart, of 70]
  show ?thesis
    by (simp add: sample_analysis_computed) (simp add: sample_usage_def low_usage_def double_eval)
qed


section \<open>The complexity heuristic\<close>

text \<open>
  Claim C9. \<open>calculateComplexity\<close> returns 0 when the symbol table is absent, when it
  has no \<open>methods\<close>, and when \<open>methods\<close> is empty, whatever \<open>Math.random\<close> would
  return.
\<close>

theorem calculateComplexity_zero:
  assumes "symbolTable = None \<or> (\<exists>st. symbolTable = Some st \<and> (methods st = None \<or> methods st = Some []))"
  shows "calculateComplexity rnd symbolTable = 0"
  using assms by (auto simp: calculateComplexity_def)

theorem calculateComplexity_zero_witness:
  "calculateComplexity (\<lambda>i. 9 / 10) (None :: unit symbol_table option) = 0
   \<and> calculateComplexity (\<lambda>i. 9 / 10) (Some \<lparr>methods = (None :: unit list option)\<rparr>) = 0
   \<and> calculateComplexity (\<lambda>i. 9 / 10) (Some \<lparr>methods = Some ([] :: unit list)\<rparr>) = 0"
  using calculateComplexity_zero [of "None :: unit symbol_table option" "\<lambda>i. 9 / 10"]
    calculateComplexity_zero [of "Some \<lparr>methods = (None :: unit list option)\<rparr>" "\<lambda>i. 9 / 10"]
    calculateComplexity_zero [of "Some \<lparr>methods = Some ([] :: unit list)\<rparr>" "\<lambda>i. 9 / 10"]
  by simp


section \<open>The anomaly detector\<close>

text \<open>
  Claim C5. For every debug log result and every configuration, the detector emits a
  \<open>HIGH_ERROR_RATE\<close> anomaly iff the number of errors is at least
  \<open>thresholds.errorRate.absoluteCount\<close>, an equal count included; it then emits exactly
  one, of severity HIGH. The number of errors compared is \<open>errors.length\<close>, which is the
  \<open>totalErrors\<close> of the summary that \<open>analyzeErrors\<close> computes from these errors.
\<close>

theorem high_error_rate_iff:
  "((\<exists>a \<in> set (detectErrorAnomalies cfg r). anomaly_type a = HIGH_ERROR_RATE)
      \<longleftrightarrow> errorRate_absoluteCount (thresholds cfg) \<le> of_nat (length (errors r)))
   \<and> length (filter (\<lambda>a. anomaly_type a = HIGH_ERROR_RATE) (detectErrorAnomalies cfg r))
       = (if errorRate_absoluteCount (thresholds cfg) \<le> of_nat (length (errors r)) then 1 else 0)
   \<and> (\<forall>a \<in> set (detectErrorAnomalies cfg r). anomaly_type a = HIGH_ERROR_RATE \<longrightarrow> severity a = HIGH)
   \<and> totalErrors (analyzeErrors (errors r)) = length (errors r)"
proof -
  have total: "totalErrors (analyzeErrors (errors r)) = length (errors r)"
    by (simp add: analyzeErrors_def Let_def)
  show ?thesis
  proof (cases "errorRate_absoluteCount (thresholds cfg) \<le> of_nat (length (errors r))")
    case True
    then show ?thesis
      by (simp add: detectErrorAnomalies_def total)
  next
    case False
    then show ?thesis
      by (simp add: detectErrorAnomalies_def total)
  qed
qed

theorem high_error_rate_iff_witness:
  "(\<exists>a \<in> set (detectErrorAnomalies sample_config
        \<lparr>errors = [sample_error, sample_error], summary = analyzeErrors [sample_error, sample_error]\<rparr>).
      anomaly_type a = HIGH_ERROR_RATE)
   \<and> length (filter (\<lambda>a. anomaly_type a = HIGH_ERROR_RATE) (detectErrorAnomalies sample_config
        \<lparr>errors = [sample_error, sample_error], summary = analyzeErrors [sample_error, sample_error]\<rparr>)) = 1
   \<and> length (filter (\<lambda>a. anomaly_type a = HIGH_ERROR_RATE) (detectErrorAnomalies sample_config
        \<lparr>errors = [sample_error], summary = analyzeErrors [sample_error]\<rparr>)) = 0"
proof -
  have threshold: "errorRate_absoluteCount (thresholds sample_config) = 2"
    by (simp add: sample_config_def)
  from high_error_rate_iff [of sample_config
      "\<lparr>errors = [sample_error, sample_error], summary = analyzeErrors [sample_error, sample_error]\<rparr>"]
    high_error_rate_iff [of sample_config
      "\<lparr>errors = [sample_error], summary = analyzeErrors [sample_error]\<rparr>"]
  show ?thesis
    by (simp add: threshold)
qed

text \<open>
  Claim C7. \<open>detect\<close> is a function of the monitoring results and the thresholds alone:
  two detectors with the same thresholds return the same list of anomalies on the same
  results, whatever their stores and the rest of their configurations are. Nothing else
  (no clock, no random number, no state of the store) enters the result.
\<close>

theorem detect_deterministic:
  assumes "thresholds (det_config d1) = thresholds (det_config d2)"
  shows "detect d1 r = detect d2 r"
proof -
  have "detectErrorAnomalies (det_config d1) x = detectErrorAnomalies (det_config d2) x" for x
    using assms by (simp add: detectErrorAnomalies_def)
  then show ?thesis
    by (simp add: detect_def split: option.splits)
qed

theorem detect_deterministic_witness:
  "detect \<lparr>det_db = store fresh_world, det_config = sample_config\<rparr>
      \<lparr>debugLogs = Some \<lparr>errors = [sample_error, sample_error],
                          summary = analyzeErrors [sample_error, sample_error]\<rparr>,
       governorLimits = None, codeQuality = None\<rparr>
   = detect \<lparr>det_db = (store fresh_world)\<lparr>last_run_id := 7\<rparr>,
             det_config = sample_config\<lparr>enabled_codeQuality := False\<rparr>\<rparr>
      \<lparr>debugLogs = Some \<lparr>errors = [sample_error, sample_error],
                          summary = analyzeErrors [sample_error, sample_error]\<rparr>,
       governorLimits = None, codeQuality = None\<rparr>"
  by (rule detect_deterministic) simp


section \<open>The run of the orchestrator\<close>

lemma startRun_step_ok:
  "store_fault env StartRun = None \<Longrightarrow>
     startRun_step env w =
       (w\<lparr>store := (store w)\<lparr>monitoring_runs := monitoring_runs (store w)
                       @ [\<lparr>run_id = last_run_id (store w) + 1, status = Running, duration_ms = None\<rparr>],
                     last_run_id := last_run_id (store w) + 1\<rparr>\<rparr>,
        Inr (last_run_id (store w) + 1))"
  by (simp add: startRun_step_def startRun_def)

lemma bind_throws: "m w = (w', Inl e) \<Longrightarrow> bind m f w = (w', Inl e)"
  by (simp add: bind_def)

lemma bind_fails_right:
  assumes "\<And>x w. \<exists>w' e. f x w = (w', Inl e)"
  shows "\<exists>w' e. bind m f w = (w', Inl e)"
proof (cases "m w")
  case (Pair w1 r)
  show ?thesis
  proof (cases r)
    case (Inl e)
    with Pair show ?thesis by (simp add: bind_def)
  next
    case (Inr x)
    with Pair assms [of x w1] show ?thesis by (simp add: bind_def)
  qed
qed

lemma endRun_fails:
  "store_fault env EndRun = Some e \<Longrightarrow> \<exists>w' e'. bind (store_call env EndRun f) g w = (w', Inl e')"
  by (simp add: bind_def store_call_def)

lemma run_body_fails:
  assumes "store_fault env EndRun = Some e"
  shows "\<exists>w' e'. run_body cfg auth env runId w = (w', Inl e')"
  unfolding run_body_def
  by (intro bind_fails_right endRun_fails [OF assms])

lemma sample_environment_fields:
  "store_fault sample_environment operation = None"
  "now_start sample_environment = 1000"
  "now_caught sample_environment = 1400"
  "store_fault quality_fault_environment operation = None"
  "now_start quality_fault_environment = 1000"
  "now_caught quality_fault_environment = 1400"
  by (simp_all add: sample_environment_def quality_fault_environment_def)

lemma sample_monitors:
  "DebugLogMonitor_monitor sample_config env =
     (case internal_fault env DebugLogMonitor of
        Some e \<Rightarrow> Inl e
      | None \<Rightarrow> Inr \<lparr>errors = absorb (query_errors env), summary = analyzeErrors (absorb (query_errors env))\<rparr>)"
  "extractLimitData sample_config env = absorb (query_limits env)"
  by (simp_all add: DebugLogMonitor_monitor_def queryDebugLogs_def extractLimitData_def sample_config_def)

lemma config_without_hours_monitors:
  "DebugLogMonitor_monitor config_without_hours env = Inl ''Invalid time value''"
  "extractLimitData config_without_hours env = []"
  by (simp_all add: DebugLogMonitor_monitor_def queryDebugLogs_def extractLimitData_def
      config_without_hours_def)

text \<open>
  Claim C8 fails on the code. When the store throws on \<open>endRun\<close> (after \<open>startRun\<close> has
  succeeded), \<open>run\<close> throws that error to its caller, whatever else happens in the run:
  either the \<open>try\<close> block fails before its \<open>endRun\<close> or at it, and the \<open>catch\<close> block
  then calls \<open>endRun\<close> again, outside any \<open>try\<close>.
\<close>

theorem run_throws_when_endRun_throws:
  assumes "store_fault env StartRun = None" and "store_fault env EndRun = Some e"
  shows "snd (run cfg auth env w) = Throws e"
proof -
  obtain w1 where start: "startRun_step env w = (w1, Inr (Suc (last_run_id (store w))))"
    using startRun_step_ok [OF assms(1)] by simp
  obtain w2 e' where body: "run_body cfg auth env (Suc (last_run_id (store w))) w1 = (w2, Inl e')"
    using run_body_fails [OF assms(2)] by blast
  show ?thesis
    by (simp add: run_def start body store_call_def assms(2))
qed

theorem run_throws_when_endRun_throws_witness:
  "snd (run sample_config connected failing_store_environment fresh_world) = Throws ''disk I/O error''"
proof -
  have "store_fault failing_store_environment StartRun = None"
    and "store_fault failing_store_environment EndRun = Some ''disk I/O error''"
    by (simp_all add: failing_store_environment_def)
  from run_throws_when_endRun_throws [OF this] show ?thesis .
qed

text \<open>When \<open>endRun\<close> does not throw, \<open>run\<close> returns a result object.\<close>

lemma run_returns_when_endRun_succeeds:
  assumes "store_fault env EndRun = None"
  shows "\<exists>r. snd (run cfg auth env w) = Returns r"
  using assms by (auto simp: run_def store_call_def split: prod.splits sum.splits)

text \<open>
  Claim C4. In a run that has reached \<open>getConnection\<close> (\<open>startRun\<close> succeeded)
  and whose \<open>getConnection\<close> throws because \<open>authenticate\<close> never succeeded, no
  monitor is invoked, the notifier is not called, and no row is added to the tables of
  errors, limits and anomalies. How the run ends depends on the \<open>endRun\<close> of the
  \<open>catch\<close> block. If the store records it, the row of the run ends with status
  \<open>failed\<close> and the duration measured in the \<open>catch\<close> block, and \<open>run\<close> returns
  \<open>{success: false, error}\<close> with the message of the error of \<open>getConnection\<close>. If
  the store throws, the row of the run keeps the status \<open>running\<close> and no duration, and
  \<open>run\<close> throws the error of the store instead of the triggering error: the claim fails
  there, by the unguarded call that claim C8 fails by.
\<close>

theorem run_without_connection:
  assumes "store_fault env StartRun = None" and "conn auth = None"
  shows "invoked (fst (run cfg auth env w)) = invoked w
    \<and> notified (fst (run cfg auth env w)) = notified w
    \<and> debug_log_errors (store (fst (run cfg auth env w))) = debug_log_errors (store w)
    \<and> governor_limits (store (fst (run cfg auth env w))) = governor_limits (store w)
    \<and> anomalies (store (fst (run cfg auth env w))) = anomalies (store w)
    \<and> length (monitoring_runs (store (fst (run cfg auth env w)))) = length (monitoring_runs (store w)) + 1
    \<and> (case store_fault env EndRun of
         None \<Rightarrow>
           snd (run cfg auth env w) = Returns (Failure ''Not authenticated. Call authenticate() first.'')
           \<and> last (monitoring_runs (store (fst (run cfg auth env w))))
               = \<lparr>run_id = last_run_id (store w) + 1, status = Failed,
                  duration_ms = Some (now_caught env - now_start env)\<rparr>
       | Some e \<Rightarrow>
           snd (run cfg auth env w) = Throws e
           \<and> last (monitoring_runs (store (fst (run cfg auth env w))))
               = \<lparr>run_id = last_run_id (store w) + 1, status = Running, duration_ms = None\<rparr>)"
proof -
  have body: "run_body cfg auth env runId w1
      = (w1, Inl ''Not authenticated. Call authenticate() first.'')" for runId w1
    unfolding run_body_def
    by (rule bind_throws) (simp add: getConnection_def assms(2))
  show ?thesis
  proof (cases "store_fault env EndRun")
    case None
    then show ?thesis
      by (simp add: run_def startRun_step_ok [OF assms(1)] body store_call_def endRun_def)
  next
    case (Some e)
    then show ?thesis
      by (simp add: run_def startRun_step_ok [OF assms(1)] body store_call_def)
  qed
qed

text \<open>
  The failing input: \<open>authenticate\<close> never succeeded, and the store cannot update
  \<open>monitoring_runs\<close>. On a working store the same run ends as the claim says.
\<close>

theorem run_without_connection_witness:
  "snd (run sample_config not_authenticated failing_store_environment fresh_world)
     = Throws ''disk I/O error''
   \<and> monitoring_runs (store (fst (run sample_config not_authenticated failing_store_environment fresh_world)))
       = [\<lparr>run_id = 1, status = Running, duration_ms = None\<rparr>]
   \<and> invoked (fst (run sample_config not_authenticated failing_store_environment fresh_world)) = []
   \<and> snd (run sample_config not_authenticated sample_environment fresh_world)
       = Returns (Failure ''Not authenticated. Call authenticate() first.'')
   \<and> monitoring_runs (store (fst (run sample_config not_authenticated sample_environment fresh_world)))
       = [\<lparr>run_id = 1, status = Failed, duration_ms = Some 400\<rparr>]
   \<and> invoked (fst (run sample_config not_authenticated sample_environment fresh_world)) = []"
proof -
  have start: "store_fault failing_store_environment StartRun = None"
    "store_fault sample_environment StartRun = None"
    and finish: "store_fault failing_store_environment EndRun = Some ''disk I/O error''"
    "store_fault sample_environment EndRun = None"
    and times: "now_caught sample_environment - now_start sample_environment = 400"
    and auth: "conn not_authenticated = None"
    by (simp_all add: failing_store_environment_def sample_environment_def not_authenticated_def)
  have single: "length xs = Suc 0 \<Longrightarrow> xs = [last xs]" for xs :: "run_row list"
    by (cases xs) simp_all
  from run_without_connection [OF start(1) auth, of sample_config fresh_world]
    run_without_connection [OF start(2) auth, of sample_config fresh_world]
  show ?thesis
    by (auto simp: finish times fresh_world_def dest: single)
qed

lemma debugLogs_step_throws:
  assumes "enabled_debugLogs cfg" and "DebugLogMonitor_monitor cfg env = Inl e"
  shows "debugLogs_step cfg env runId results w = (w\<lparr>invoked := invoked w @ [DebugLogMonitor]\<rparr>, Inl e)"
  using assms by (simp add: debugLogs_step_def bind_def invoke_def)

lemma debugLogs_step_returns:
  assumes "enabled_debugLogs cfg" and "DebugLogMonitor_monitor cfg env = Inr r"
    and "store_fault env InsertDebugLogErrors = None"
  shows "debugLogs_step cfg env runId results w =
     (w\<lparr>invoked := invoked w @ [DebugLogMonitor],
        store := (store w)\<lparr>debug_log_errors := debug_log_errors (store w) @ map (Pair runId) (errors r)\<rparr>\<rparr>,
      Inr (results\<lparr>debugLogs := Some r\<rparr>))"
  using assms by (simp add: debugLogs_step_def bind_def invoke_def store_call_def insertDebugLogErrors_def)

lemma governorLimits_step_throws:
  assumes "enabled_governorLimits cfg" and "GovernorLimitMonitor_monitor cfg env = Inl e"
  shows "governorLimits_step cfg env runId results w
     = (w\<lparr>invoked := invoked w @ [GovernorLimitMonitor]\<rparr>, Inl e)"
  using assms by (simp add: governorLimits_step_def bind_def invoke_def)

lemma governorLimits_step_returns:
  assumes "enabled_governorLimits cfg" and "GovernorLimitMonitor_monitor cfg env = Inr r"
    and "store_fault env InsertGovernorLimits = None"
  shows "governorLimits_step cfg env runId results w =
     (w\<lparr>invoked := invoked w @ [GovernorLimitMonitor],
        store := (store w)\<lparr>governor_limits := governor_limits (store w) @ map (Pair runId) (limitData r)\<rparr>\<rparr>,
      Inr (results\<lparr>governorLimits := Some r\<rparr>))"
  using assms
  by (simp add: governorLimits_step_def bind_def invoke_def store_call_def insertGovernorLimits_def)

lemma codeQuality_step_throws:
  assumes "enabled_codeQuality cfg" and "CodeQualityMonitor_monitor cfg env = Inl e"
  shows "codeQuality_step cfg env results w = (w\<lparr>invoked := invoked w @ [CodeQualityMonitor]\<rparr>, Inl e)"
  using assms by (simp add: codeQuality_step_def bind_def invoke_def)

lemma run_catches:
  assumes "store_fault env StartRun = None" and "store_fault env EndRun = None"
    and "run_body cfg auth env (Suc (last_run_id (store w)))
           (w\<lparr>store := (store w)\<lparr>monitoring_runs := monitoring_runs (store w)
                       @ [\<lparr>run_id = Suc (last_run_id (store w)), status = Running, duration_ms = None\<rparr>],
                     last_run_id := Suc (last_run_id (store w))\<rparr>\<rparr>) = (w2, Inl e)"
  shows "run cfg auth env w =
     (w2\<lparr>store := endRun (Suc (last_run_id (store w))) Failed (now_caught env - now_start env) (store w2)\<rparr>,
      Returns (Failure e))"
  using assms(3) by (simp add: run_def startRun_step_ok [OF assms(1)] store_call_def assms(2))

text \<open>
  Claim C2, as stated, fails. \<open>monitor\<close> logs an error of its body and throws it again,
  and \<open>run\<close> has no \<open>try\<close> around a single monitor. Without
  \<open>monitoring.intervals.debugLogHours\<close> the debug log monitor throws the RangeError of
  \<open>toISOString\<close>, while the other two monitors would succeed, the code quality monitor
  with a class that has an issue: the run invokes the debug log monitor only, stores no
  anomaly, ends with status \<open>failed\<close> and returns \<open>{success: false, error}\<close>.
\<close>

theorem raising_monitor_counterexample:
  "monitor_error config_without_hours sample_environment DebugLogMonitor = Some ''Invalid time value''
   \<and> monitor_error config_without_hours sample_environment GovernorLimitMonitor = None
   \<and> monitor_error config_without_hours sample_environment CodeQualityMonitor = None
   \<and> map iss_className (identifyIssues (thresholds_codeQuality (thresholds config_without_hours))
                            (analyzeApexClasses sample_environment)) = [''Checkout'']
   \<and> snd (run config_without_hours connected sample_environment fresh_world)
       = Returns (Failure ''Invalid time value'')
   \<and> map status (monitoring_runs (store (fst (run config_without_hours connected sample_environment fresh_world))))
       = [Failed]
   \<and> anomalies (store (fst (run config_without_hours connected sample_environment fresh_world))) = []
   \<and> invoked (fst (run config_without_hours connected sample_environment fresh_world)) = [DebugLogMonitor]"
proof -
  have flags: "enabled_debugLogs config_without_hours"
    by (simp add: config_without_hours_def sample_config_def)
  have no_fault: "internal_fault sample_environment m = None" for m
    by (simp add: sample_environment_def)
  have issues: "map iss_className (identifyIssues (thresholds_codeQuality (thresholds config_without_hours))
                            (analyzeApexClasses sample_environment)) = [''Checkout'']"
    by (simp add: sample_environment_def analyzeApexClasses_def
        absorb_def identifyIssues_def classIssues_def config_without_hours_def sample_config_def
        sample_class_def calculateComplexity_def calculateComplexity_step_def)
  have body: "run_body config_without_hours connected sample_environment runId w
      = (w\<lparr>invoked := invoked w @ [DebugLogMonitor]\<rparr>, Inl ''Invalid time value'')" for runId w
    by (simp add: run_body_def bind_def getConnection_def connected_def debugLogs_step_def flags
        invoke_def config_without_hours_monitors)
  have run: "run config_without_hours connected sample_environment fresh_world =
      (\<lparr>store = \<lparr>monitoring_runs = [\<lparr>run_id = 1, status = Failed, duration_ms = Some 400\<rparr>],
                 debug_log_errors = [], governor_limits = [], anomalies = [], last_run_id = 1\<rparr>,
        invoked = [DebugLogMonitor], notified = []\<rparr>,
       Returns (Failure ''Invalid time value''))"
    by (simp add: run_def body startRun_step_def startRun_def store_call_def endRun_def
        sample_environment_fields fresh_world_def)
  show ?thesis
    by (simp add: run issues config_without_hours_monitors GovernorLimitMonitor_monitor_def
        CodeQualityMonitor_monitor_def no_fault analyzeLimits_returns)
qed

text \<open>
  Claim C2, amended. In a run with the three monitors enabled, a connection and a working
  store, in which exactly one monitor throws from \<open>monitor\<close>: the monitors before it
  have been invoked and their records are stored (the errors of the debug log monitor,
  the usage records of the governor limit monitor), no later monitor is invoked, no
  anomaly is stored and the notifier is not called, the row of the run ends with status
  \<open>failed\<close> and the duration measured in the \<open>catch\<close> block, and \<open>run\<close> returns
  \<open>{success: false, error}\<close> with the message of the monitor's error.
\<close>

theorem run_stops_at_raising_monitor:
  assumes enabled: "enabled_debugLogs cfg" "enabled_governorLimits cfg" "enabled_codeQuality cfg"
    and auth: "conn auth = Some c"
    and store_ok: "\<forall>operation. store_fault env operation = None"
    and raises: "monitor_error cfg env m = Some e"
    and others: "\<forall>m'. m' \<noteq> m \<longrightarrow> monitor_error cfg env m' = None"
  shows "snd (run cfg auth env w) = Returns (Failure e)
    \<and> invoked (fst (run cfg auth env w)) = invoked w @ monitors_through m
    \<and> notified (fst (run cfg auth env w)) = notified w
    \<and> anomalies (store (fst (run cfg auth env w))) = anomalies (store w)
    \<and> last (monitoring_runs (store (fst (run cfg auth env w))))
        = \<lparr>run_id = last_run_id (store w) + 1, status = Failed,
           duration_ms = Some (now_caught env - now_start env)\<rparr>
    \<and> debug_log_errors (store (fst (run cfg auth env w)))
        = debug_log_errors (store w)
          @ (if m = DebugLogMonitor then []
             else map (Pair (last_run_id (store w) + 1)) (monitored_errors cfg env))
    \<and> governor_limits (store (fst (run cfg auth env w)))
        = governor_limits (store w)
          @ (if m = CodeQualityMonitor
             then map (Pair (last_run_id (store w) + 1)) (monitored_limits cfg env)
             else [])"
proof -
  have start: "store_fault env StartRun = None" and finish: "store_fault env EndRun = None"
    and ins1: "store_fault env InsertDebugLogErrors = None"
    and ins2: "store_fault env InsertGovernorLimits = None"
    using store_ok by simp_all
  have conn: "getConnection auth = Inr c"
    using auth by (simp add: getConnection_def)
  show ?thesis
  proof (cases m)
    case DebugLogMonitor
    from raises DebugLogMonitor have m1: "DebugLogMonitor_monitor cfg env = Inl e"
      by (simp split: sum.splits)
    have body: "run_body cfg auth env runId w1 = (w1\<lparr>invoked := invoked w1 @ [DebugLogMonitor]\<rparr>, Inl e)"
      for runId w1
      by (simp add: run_body_def bind_def conn debugLogs_step_throws [OF enabled(1) m1])
    show ?thesis
      by (simp add: run_catches [OF start finish body] DebugLogMonitor endRun_def)
  next
    case GovernorLimitMonitor
    from others GovernorLimitMonitor have "monitor_error cfg env DebugLogMonitor = None"
      by blast
    then obtain r1 where m1: "DebugLogMonitor_monitor cfg env = Inr r1"
      by (auto split: sum.splits)
    from raises GovernorLimitMonitor have m2: "GovernorLimitMonitor_monitor cfg env = Inl e"
      by (simp split: sum.splits)
    have body: "run_body cfg auth env runId w1 =
        (w1\<lparr>invoked := invoked w1 @ [DebugLogMonitor, GovernorLimitMonitor],
            store := (store w1)\<lparr>debug_log_errors := debug_log_errors (store w1) @ map (Pair runId) (errors r1)\<rparr>\<rparr>,
         Inl e)" for runId w1
      by (simp add: run_body_def bind_def conn debugLogs_step_returns [OF enabled(1) m1 ins1]
          governorLimits_step_throws [OF enabled(2) m2])
    show ?thesis
      by (simp add: run_catches [OF start finish body] GovernorLimitMonitor endRun_def
          monitored_errors_def m1)
  next
    case CodeQualityMonitor
    from others CodeQualityMonitor have "monitor_error cfg env DebugLogMonitor = None"
      and "monitor_error cfg env GovernorLimitMonitor = None"
      by blast+
    then obtain r1 r2 where m1: "DebugLogMonitor_monitor cfg env = Inr r1"
      and m2: "GovernorLimitMonitor_monitor cfg env = Inr r2"
      by (auto split: sum.splits)
    from raises CodeQualityMonitor have m3: "CodeQualityMonitor_monitor cfg env = Inl e"
      by (simp split: sum.splits)
    have body: "run_body cfg auth env runId w1 =
        (w1\<lparr>invoked := invoked w1 @ [DebugLogMonitor, GovernorLimitMonitor, CodeQualityMonitor],
            store := (store w1)\<lparr>debug_log_errors := debug_log_errors (store w1) @ map (Pair runId) (errors r1),
                                governor_limits := governor_limits (store w1) @ map (Pair runId) (limitData r2)\<rparr>\<rparr>,
         Inl e)" for runId w1
      by (simp add: run_body_def bind_def conn debugLogs_step_returns [OF enabled(1) m1 ins1]
          governorLimits_step_returns [OF enabled(2) m2 ins2]
          codeQuality_step_throws [OF enabled(3) m3])
    show ?thesis
      by (simp add: run_catches [OF start finish body] CodeQualityMonitor endRun_def
          monitored_errors_def monitored_limits_def m1 m2)
  qed
qed

theorem run_stops_at_raising_monitor_witness:
  "snd (run sample_config connected quality_fault_environment fresh_world)
     = Returns (Failure ''Cannot read properties of undefined'')
   \<and> invoked (fst (run sample_config connected quality_fault_environment fresh_world))
       = [DebugLogMonitor, GovernorLimitMonitor, CodeQualityMonitor]
   \<and> notified (fst (run sample_config connected quality_fault_environment fresh_world)) = []
   \<and> anomalies (store (fst (run sample_config connected quality_fault_environment fresh_world))) = []
   \<and> last (monitoring_runs (store (fst (run sample_config connected quality_fault_environment fresh_world))))
       = \<lparr>run_id = 1, status = Failed, duration_ms = Some 400\<rparr>
   \<and> debug_log_errors (store (fst (run sample_config connected quality_fault_environment fresh_world)))
       = [(1, sample_error), (1, sample_error)]
   \<and> governor_limits (store (fst (run sample_config connected quality_fault_environment fresh_world)))
       = [(1, sample_usage)]"
proof -
  have enabled: "enabled_debugLogs sample_config" "enabled_governorLimits sample_config"
    "enabled_codeQuality sample_config"
    by (simp_all add: sample_config_def)
  have auth: "conn connected = Some (Connection ''https://example.my.salesforce.com'')"
    by (simp add: connected_def)
  have store_ok: "\<forall>operation. store_fault quality_fault_environment operation = None"
    by (simp add: sample_environment_fields)
  have raises: "monitor_error sample_config quality_fault_environment CodeQualityMonitor
      = Some ''Cannot read properties of undefined''"
    by (simp add: CodeQualityMonitor_monitor_def quality_fault_environment_def)
  have others: "\<forall>m'. m' \<noteq> CodeQualityMonitor
      \<longrightarrow> monitor_error sample_config quality_fault_environment m' = None"
  proof (intro allI impI)
    fix m' :: monitor_id
    assume "m' \<noteq> CodeQualityMonitor"
    then show "monitor_error sample_config quality_fault_environment m' = None"
      by (cases m')
        (simp_all add: sample_monitors GovernorLimitMonitor_monitor_def quality_fault_environment_def
          sample_environment_def absorb_def analyzeLimits_returns)
  qed
  have errs: "monitored_errors sample_config quality_fault_environment = [sample_error, sample_error]"
    by (simp add: monitored_errors_def sample_monitors absorb_def quality_fault_environment_def
        sample_environment_def)
  have lims: "monitored_limits sample_config quality_fault_environment = [sample_usage]"
    by (simp add: monitored_limits_def GovernorLimitMonitor_monitor_def sample_monitors absorb_def
        quality_fault_environment_def sample_environment_def analyzeLimits_returns)
  from run_stops_at_raising_monitor [OF enabled auth store_ok raises others, of fresh_world]
  show ?thesis
    by (simp add: errs lims fresh_world_def sample_environment_fields)
qed


end
